theory Spec2Isabelle
  imports Complex_Main
begin

section \<open>Knowledge graph service: data model\<close>

text \<open>
  The development follows \<^verbatim>\<open>backend/app/services/knowledge_graph_service.py\<close>;
  a method keeps its name without the leading underscore. Python floats are idealised as \<^typ>\<open>real\<close>; no statement below depends on a rounded
  value. Exceptions are values of type \<open>error\<close>, and a function that can raise returns
  \<open>error + 'a\<close> with \<open>Inl\<close> for the exception.
\<close>

datatype NodeType =
  PAPER | AUTHOR | CONCEPT | INSTITUTION | JOURNAL | KEYWORD | GENE | PROTEIN | DISEASE | DRUG | METHOD

fun node_type_value :: "NodeType \<Rightarrow> string" where
  "node_type_value PAPER = ''paper''"
| "node_type_value AUTHOR = ''author''"
| "node_type_value CONCEPT = ''concept''"
| "node_type_value INSTITUTION = ''institution''"
| "node_type_value JOURNAL = ''journal''"
| "node_type_value KEYWORD = ''keyword''"
| "node_type_value GENE = ''gene''"
| "node_type_value PROTEIN = ''protein''"
| "node_type_value DISEASE = ''disease''"
| "node_type_value DRUG = ''drug''"
| "node_type_value METHOD = ''method''"

datatype EdgeType =
  CITES | AUTHORED_BY | AFFILIATED_WITH | PUBLISHED_IN | RELATED_TO | STUDIES | TREATS
  | INTERACTS_WITH | USES_METHOD

fun edge_type_value :: "EdgeType \<Rightarrow> string" where
  "edge_type_value CITES = ''cites''"
| "edge_type_value AUTHORED_BY = ''authored_by''"
| "edge_type_value AFFILIATED_WITH = ''affiliated_with''"
| "edge_type_value PUBLISHED_IN = ''published_in''"
| "edge_type_value RELATED_TO = ''related_to''"
| "edge_type_value STUDIES = ''studies''"
| "edge_type_value TREATS = ''treats''"
| "edge_type_value INTERACTS_WITH = ''interacts_with''"
| "edge_type_value USES_METHOD = ''uses_method''"

text \<open>Values of the \<open>Dict[str, Any]\<close> property bags and of the serialised result.\<close>

datatype json =
  JNull | JBool bool | JInt int | JNum real | JStr string | JList "json list"
  | JDict "(string \<times> json) list"

type_synonym pydict = "(string \<times> json) list"

datatype error =
  KeyError string | ValueError string | NetworkXPointlessConcept string
  | LibraryError string | DatabaseError string

text \<open>\<open>str(e)\<close>: a \<open>KeyError\<close> prints the repr of its key, the others their message.\<close>

fun str_error :: "error \<Rightarrow> string" where
  "str_error (KeyError k) = [CHR 0x27] @ k @ [CHR 0x27]"
| "str_error (ValueError m) = m"
| "str_error (NetworkXPointlessConcept m) = m"
| "str_error (LibraryError m) = m"
| "str_error (DatabaseError m) = m"

record vec3 =
  px :: real
  py :: real
  pz :: real

record GraphNode =
  node_id :: string
  label :: string
  node_type :: NodeType
  properties :: pydict
  position :: "vec3 option"
  cluster_id :: "string option"
  importance_score :: real

record GraphEdge =
  source :: string
  target :: string
  edge_type :: EdgeType
  weight :: real
  edge_properties :: "pydict option"

record GraphCluster =
  cluster_ident :: string
  cluster_name :: string
  description :: string
  cluster_nodes :: "string list"
  center :: vec3
  color :: string
  cluster_size :: nat

subsection \<open>Rows of the data store\<close>

text \<open>
  The ORM rows of \<^verbatim>\<open>app/models/research_paper.py\<close>, with the columns the service
  reads. A primary key is the text \<open>str(row.id)\<close> of its UUID; a publication date is the
  text its \<open>isoformat()\<close> gives.
\<close>

record Researcher =
  researcher_id :: string
  researcher_name :: string
  institution :: "string option"
  orcid :: "string option"
  h_index :: "int option"
  total_citations :: int

record Keyword =
  keyword_id :: string
  keyword_term :: string
  category :: "string option"
  usage_count :: int

record Citation =
  cited_paper_id :: string
  citation_context :: "string option"
  citation_type :: "string option"

record ResearchPaper =
  paper_id :: string
  title :: string
  abstract :: "string option"
  doi :: "string option"
  publication_date :: "string option"
  citation_count :: int
  research_domains :: "string list option"
  has_null_results :: bool
  paper_authors :: "Researcher list"
  paper_keywords :: "Keyword list"
  citations_made :: "Citation list"

subsection \<open>The session: query and persistence\<close>

text \<open>
  The statement \<open>_collect_graph_data\<close> builds: \<open>where(id.in_(papers))\<close> when the filter is
  given and not empty, and \<open>limit(max_nodes // 2)\<close>. The session answers a statement with
  rows or raises; \<open>commit\<close> answers with the stored row's id or raises; \<open>rollback\<close> and
  \<open>close\<close> return or raise. A session answers the same way each time it is asked.
  The id of a stored row is a UUID (\<open>default=uuid4\<close>), and \<open>str\<close> of it has 32 hexadecimal
  digits in groups of 8, 4, 4, 4 and 12 with hyphens between them.
\<close>

record paper_query =
  where_ids :: "string list option"
  query_limit :: int

record KnowledgeGraphRow =
  row_name :: string
  row_description :: string
  row_nodes :: pydict
  row_edges :: pydict
  row_graph_metadata :: json
  created_by_id :: string
  is_public :: bool

record session =
  execute :: "paper_query \<Rightarrow> error + ResearchPaper list"
  commit :: "KnowledgeGraphRow \<Rightarrow> error + string"
  rollback :: "error + unit"
  close :: "error + unit"

section \<open>Graph builder\<close>

definition jopt_str :: "string option \<Rightarrow> json" where
  "jopt_str s = (case s of None \<Rightarrow> JNull | Some t \<Rightarrow> JStr t)"

definition jopt_int :: "int option \<Rightarrow> json" where
  "jopt_int s = (case s of None \<Rightarrow> JNull | Some i \<Rightarrow> JInt i)"

definition paper_node :: "ResearchPaper \<Rightarrow> GraphNode" where
  "paper_node paper =
     \<lparr> node_id = ''paper_'' @ paper_id paper,
       label = take 100 (title paper),
       node_type = PAPER,
       properties =
         [(''title'', JStr (title paper)),
          (''abstract'', jopt_str (abstract paper)),
          (''doi'', jopt_str (doi paper)),
          (''publication_date'', jopt_str (publication_date paper)),
          (''citation_count'', JInt (citation_count paper)),
          (''research_domains'',
             (case research_domains paper of None \<Rightarrow> JNull | Some ds \<Rightarrow> JList (map JStr ds))),
          (''has_null_results'', JBool (has_null_results paper))],
       position = None,
       cluster_id = None,
       importance_score = 0 \<rparr>"

definition author_node :: "Researcher \<Rightarrow> GraphNode" where
  "author_node author =
     \<lparr> node_id = ''author_'' @ researcher_id author,
       label = researcher_name author,
       node_type = AUTHOR,
       properties =
         [(''name'', JStr (researcher_name author)),
          (''institution'', jopt_str (institution author)),
          (''orcid'', jopt_str (orcid author)),
          (''h_index'', jopt_int (h_index author)),
          (''total_citations'', JInt (total_citations author))],
       position = None,
       cluster_id = None,
       importance_score = 0 \<rparr>"

definition keyword_node :: "Keyword \<Rightarrow> GraphNode" where
  "keyword_node keyword =
     \<lparr> node_id = ''keyword_'' @ keyword_id keyword,
       label = keyword_term keyword,
       node_type = KEYWORD,
       properties =
         [(''term'', JStr (keyword_term keyword)),
          (''category'', jopt_str (category keyword)),
          (''usage_count'', JInt (usage_count keyword))],
       position = None,
       cluster_id = None,
       importance_score = 0 \<rparr>"

text \<open>
  The state of the loops of \<open>_collect_graph_data\<close>: the lists \<open>nodes\<close> and \<open>edges\<close> and the
  set \<open>node_ids\<close>.
\<close>

type_synonym collect_state = "GraphNode list \<times> GraphEdge list \<times> string set"

text \<open>
  \<open>for author in paper.authors\<close>: the node is appended under the guard, the authorship
  edge after it, outside the guard.
\<close>

fun author_loop :: "int \<Rightarrow> string \<Rightarrow> Researcher list \<Rightarrow> collect_state \<Rightarrow> collect_state" where
  "author_loop max_nodes pid [] st = st"
| "author_loop max_nodes pid (author # rest) (nodes, edges, node_ids) =
     (let author_id = ''author_'' @ researcher_id author;
          admit = (author_id \<notin> node_ids \<and> int (length nodes) < max_nodes);
          nodes' = (if admit then nodes @ [author_node author] else nodes);
          node_ids' = (if admit then insert author_id node_ids else node_ids);
          edge = \<lparr> source = author_id, target = pid, edge_type = AUTHORED_BY,
                   weight = 1, edge_properties = None \<rparr>
      in author_loop max_nodes pid rest (nodes', edges @ [edge], node_ids'))"

text \<open>\<open>for keyword in paper.keywords\<close>: the same pattern, the edge from the paper.\<close>

fun keyword_loop :: "int \<Rightarrow> string \<Rightarrow> Keyword list \<Rightarrow> collect_state \<Rightarrow> collect_state" where
  "keyword_loop max_nodes pid [] st = st"
| "keyword_loop max_nodes pid (keyword # rest) (nodes, edges, node_ids) =
     (let kid = ''keyword_'' @ keyword_id keyword;
          admit = (kid \<notin> node_ids \<and> int (length nodes) < max_nodes);
          nodes' = (if admit then nodes @ [keyword_node keyword] else nodes);
          node_ids' = (if admit then insert kid node_ids else node_ids);
          edge = \<lparr> source = pid, target = kid, edge_type = RELATED_TO,
                   weight = 1 / 2, edge_properties = None \<rparr>
      in keyword_loop max_nodes pid rest (nodes', edges @ [edge], node_ids'))"

text \<open>
  \<open>for paper in papers_data\<close>: \<open>break\<close> once the budget is reached, else the paper's node,
  its authors and its keywords.
\<close>

fun paper_loop :: "int \<Rightarrow> ResearchPaper list \<Rightarrow> collect_state \<Rightarrow> collect_state" where
  "paper_loop max_nodes [] st = st"
| "paper_loop max_nodes (paper # rest) (nodes, edges, node_ids) =
     (if int (length nodes) \<ge> max_nodes then (nodes, edges, node_ids)
      else
        (let node = paper_node paper;
             st1 = (nodes @ [node], edges, insert (node_id node) node_ids);
             st2 = author_loop max_nodes (node_id node) (paper_authors paper) st1;
             st3 = keyword_loop max_nodes (node_id node) (paper_keywords paper) st2
         in paper_loop max_nodes rest st3))"

text \<open>
  The second pass over \<open>papers_data\<close>: one \<open>cites\<close> edge per citation whose cited paper
  is in \<open>node_ids\<close>.
\<close>

definition citation_edge :: "string \<Rightarrow> Citation \<Rightarrow> GraphEdge" where
  "citation_edge pid citation =
     \<lparr> source = pid, target = ''paper_'' @ cited_paper_id citation, edge_type = CITES,
       weight = 1,
       edge_properties =
         Some [(''context'', jopt_str (citation_context citation)),
               (''citation_type'', jopt_str (citation_type citation))] \<rparr>"

fun citation_loop :: "string set \<Rightarrow> string \<Rightarrow> Citation list \<Rightarrow> GraphEdge list \<Rightarrow> GraphEdge list" where
  "citation_loop node_ids pid [] edges = edges"
| "citation_loop node_ids pid (citation # rest) edges =
     citation_loop node_ids pid rest
       (if ''paper_'' @ cited_paper_id citation \<in> node_ids
        then edges @ [citation_edge pid citation] else edges)"

fun citations_pass :: "string set \<Rightarrow> ResearchPaper list \<Rightarrow> GraphEdge list \<Rightarrow> GraphEdge list" where
  "citations_pass node_ids [] edges = edges"
| "citations_pass node_ids (paper # rest) edges =
     citations_pass node_ids rest
       (citation_loop node_ids (''paper_'' @ paper_id paper) (citations_made paper) edges)"

definition collect_from :: "ResearchPaper list \<Rightarrow> int \<Rightarrow> GraphNode list \<times> GraphEdge list" where
  "collect_from papers_data max_nodes =
     (case paper_loop max_nodes papers_data ([], [], {}) of
        (nodes, edges, node_ids) \<Rightarrow> (nodes, citations_pass node_ids papers_data edges))"

text \<open>
  \<open>if papers:\<close> is true for a list that is given and not empty; the author filter is not
  used and the keyword filter is \<open>pass\<close>. \<open>//\<close> is the floor division \<open>div\<close>. A failing
  statement propagates.
\<close>

definition collect_query :: "string list option \<Rightarrow> int \<Rightarrow> paper_query" where
  "collect_query papers max_nodes =
     \<lparr> where_ids = (case papers of None \<Rightarrow> None | Some ids \<Rightarrow> (if ids = [] then None else Some ids)),
       query_limit = max_nodes div 2 \<rparr>"

definition collect_graph_data ::
  "session \<Rightarrow> string list option \<Rightarrow> string list option \<Rightarrow> string list option \<Rightarrow> int
     \<Rightarrow> error + (GraphNode list \<times> GraphEdge list)" where
  "collect_graph_data sess papers authors_filter keywords_filter max_nodes =
     (case execute sess (collect_query papers max_nodes) of
        Inl e \<Rightarrow> Inl e
      | Inr papers_data \<Rightarrow> Inr (collect_from papers_data max_nodes))"

section \<open>The analysis graph\<close>

text \<open>
  The undirected \<open>nx.Graph\<close> the service builds: the nodes in insertion order, each with
  its attribute dict, and one entry per unordered pair of joined nodes with the edge's
  attribute dict. \<open>add_node\<close> on a node that is present updates its attributes;
  \<open>add_edge\<close> adds an endpoint that is missing (with no attributes) and updates the
  attributes of a pair that is already joined.
\<close>

record nx_graph =
  g_nodes :: "(string \<times> pydict) list"
  g_edges :: "((string \<times> string) \<times> pydict) list"

fun dict_set :: "string \<Rightarrow> json \<Rightarrow> pydict \<Rightarrow> pydict" where
  "dict_set k v [] = [(k, v)]"
| "dict_set k v ((k', v') # rest) =
     (if k' = k then (k, v) # rest else (k', v') # dict_set k v rest)"

definition dict_update :: "pydict \<Rightarrow> pydict \<Rightarrow> pydict" where
  "dict_update d new = foldl (\<lambda>acc (k, v). dict_set k v acc) d new"

fun set_node_attrs :: "string \<Rightarrow> pydict \<Rightarrow> (string \<times> pydict) list \<Rightarrow> (string \<times> pydict) list" where
  "set_node_attrs n attrs [] = [(n, attrs)]"
| "set_node_attrs n attrs ((m, old) # rest) =
     (if m = n then (m, dict_update old attrs) # rest else (m, old) # set_node_attrs n attrs rest)"

definition add_node :: "string \<Rightarrow> pydict \<Rightarrow> nx_graph \<Rightarrow> nx_graph" where
  "add_node n attrs G = G \<lparr> g_nodes := set_node_attrs n attrs (g_nodes G) \<rparr>"

definition same_pair :: "string \<times> string \<Rightarrow> string \<times> string \<Rightarrow> bool" where
  "same_pair e f = (e = f \<or> e = (snd f, fst f))"

fun set_edge_attrs ::
  "string \<times> string \<Rightarrow> pydict \<Rightarrow> ((string \<times> string) \<times> pydict) list
     \<Rightarrow> ((string \<times> string) \<times> pydict) list" where
  "set_edge_attrs e attrs [] = [(e, attrs)]"
| "set_edge_attrs e attrs ((f, old) # rest) =
     (if same_pair e f then (f, dict_update old attrs) # rest
      else (f, old) # set_edge_attrs e attrs rest)"

definition add_edge :: "string \<Rightarrow> string \<Rightarrow> pydict \<Rightarrow> nx_graph \<Rightarrow> nx_graph" where
  "add_edge u v attrs G =
     (let G1 = add_node u [] G; G2 = add_node v [] G1
      in G2 \<lparr> g_edges := set_edge_attrs (u, v) attrs (g_edges G2) \<rparr>)"

definition graph_nodes :: "nx_graph \<Rightarrow> string list" where
  "graph_nodes G = map fst (g_nodes G)"

definition number_of_nodes :: "nx_graph \<Rightarrow> nat" where
  "number_of_nodes G = length (g_nodes G)"

definition number_of_edges :: "nx_graph \<Rightarrow> nat" where
  "number_of_edges G = length (g_edges G)"

definition empty_graph :: nx_graph where
  "empty_graph = \<lparr> g_nodes = [], g_edges = [] \<rparr>"

text \<open>\<open>_create_networkx_graph\<close>: the nodes first, then the edges.\<close>

definition node_attrs :: "GraphNode \<Rightarrow> pydict" where
  "node_attrs node =
     [(''label'', JStr (label node)),
      (''type'', JStr (node_type_value (node_type node))),
      (''properties'', JDict (properties node))]"

definition edge_attrs :: "GraphEdge \<Rightarrow> pydict" where
  "edge_attrs edge =
     [(''type'', JStr (edge_type_value (edge_type edge))),
      (''weight'', JNum (weight edge)),
      (''properties'', JDict (case edge_properties edge of None \<Rightarrow> [] | Some d \<Rightarrow> d))]"

definition create_networkx_graph :: "GraphNode list \<Rightarrow> GraphEdge list \<Rightarrow> nx_graph" where
  "create_networkx_graph nodes edges =
     (let G1 = foldl (\<lambda>G node. add_node (node_id node) (node_attrs node) G) empty_graph nodes
      in foldl (\<lambda>G edge. add_edge (source edge) (target edge) (edge_attrs edge) G) G1 edges)"

subsection \<open>Connectivity and distances\<close>

text \<open>
  The graph notions the analysis reports as integers and booleans, by breadth-first
  search: the nodes within \<open>k\<close> steps of a node, its component, and its eccentricity.
  \<open>is_connected\<close> raises on the graph with no node, and \<open>diameter\<close> on a graph that is not
  connected, as the library's functions do.
\<close>

definition neighbors :: "nx_graph \<Rightarrow> string \<Rightarrow> string list" where
  "neighbors G v =
     concat (map (\<lambda>((a, b), attrs). (if a = v then [b] else []) @ (if b = v then [a] else []))
       (g_edges G))"

fun ball :: "nx_graph \<Rightarrow> nat \<Rightarrow> string \<Rightarrow> string list" where
  "ball G 0 v = [v]"
| "ball G (Suc k) v = remdups (ball G k v @ concat (map (neighbors G) (ball G k v)))"

definition component :: "nx_graph \<Rightarrow> string \<Rightarrow> string list" where
  "component G v = ball G (number_of_nodes G) v"

definition is_connected :: "nx_graph \<Rightarrow> error + bool" where
  "is_connected G =
     (case graph_nodes G of
        [] \<Rightarrow> Inl (NetworkXPointlessConcept ''Connectivity is undefined for the null graph.'')
      | v # rest \<Rightarrow> Inr (list_all (\<lambda>u. u \<in> set (component G v)) (graph_nodes G)))"

fun count_components :: "nx_graph \<Rightarrow> string list \<Rightarrow> string list \<Rightarrow> nat" where
  "count_components G [] seen = 0"
| "count_components G (v # rest) seen =
     (if v \<in> set seen then count_components G rest seen
      else Suc (count_components G rest (component G v @ seen)))"

definition number_connected_components :: "nx_graph \<Rightarrow> nat" where
  "number_connected_components G = count_components G (graph_nodes G) []"

fun eccentricity_from :: "nx_graph \<Rightarrow> string \<Rightarrow> nat \<Rightarrow> nat \<Rightarrow> nat" where
  "eccentricity_from G v k 0 = k"
| "eccentricity_from G v k (Suc fuel) =
     (if list_all (\<lambda>u. u \<in> set (ball G k v)) (graph_nodes G) then k
      else eccentricity_from G v (Suc k) fuel)"

definition eccentricity :: "nx_graph \<Rightarrow> string \<Rightarrow> nat" where
  "eccentricity G v = eccentricity_from G v 0 (number_of_nodes G)"

definition diameter :: "nx_graph \<Rightarrow> error + nat" where
  "diameter G =
     (case is_connected G of
        Inl e \<Rightarrow> Inl e
      | Inr c \<Rightarrow>
          (if c then Inr (foldl max 0 (map (eccentricity G) (graph_nodes G)))
           else Inl (LibraryError
             ''Found infinite path length because the graph is not connected'')))"

subsection \<open>The numeric routines of the graph library\<close>

text \<open>
  The routines whose results are floats, the community detection and the planar spring
  layout are parameters: each answers for a graph or raises. \<open>nx_betweenness G (Some k)\<close>
  is the estimate from \<open>k\<close> sampled pivots, \<open>nx_betweenness G None\<close> the exact value.
\<close>

record nx_lib =
  nx_density :: "nx_graph \<Rightarrow> error + real"
  nx_average_clustering :: "nx_graph \<Rightarrow> error + real"
  nx_average_shortest_path_length :: "nx_graph \<Rightarrow> error + real"
  nx_degree_centrality :: "nx_graph \<Rightarrow> error + (string \<times> real) list"
  nx_betweenness :: "nx_graph \<Rightarrow> nat option \<Rightarrow> error + (string \<times> real) list"
  nx_closeness_centrality :: "nx_graph \<Rightarrow> error + (string \<times> real) list"
  nx_eigenvector_centrality :: "nx_graph \<Rightarrow> nat \<Rightarrow> error + (string \<times> real) list"
  nx_louvain_communities :: "nx_graph \<Rightarrow> error + string list list"
  nx_spring_layout :: "nx_graph \<Rightarrow> real \<Rightarrow> nat \<Rightarrow> error + (string \<times> real \<times> real) list"

text \<open>
  \<open>betweenness_centrality(G, k)\<close> draws its \<open>k\<close> pivots with
  \<open>random.sample(list(G.nodes()), k)\<close>, which raises \<open>ValueError\<close> when \<open>k\<close> is larger than
  the number of nodes.
\<close>

definition betweenness_centrality ::
  "nx_lib \<Rightarrow> nx_graph \<Rightarrow> nat option \<Rightarrow> error + (string \<times> real) list" where
  "betweenness_centrality nx G k =
     (case k of
        None \<Rightarrow> nx_betweenness nx G None
      | Some k' \<Rightarrow>
          (if k' > number_of_nodes G
           then Inl (ValueError ''Sample larger than population or is negative'')
           else nx_betweenness nx G (Some k')))"

section \<open>Structural analyzer\<close>

definition bind_err :: "error + 'a \<Rightarrow> ('a \<Rightarrow> error + 'b) \<Rightarrow> error + 'b" where
  "bind_err r f = (case r of Inl e \<Rightarrow> Inl e | Inr a \<Rightarrow> f a)"

definition scores_json :: "(string \<times> real) list \<Rightarrow> json" where
  "scores_json d = JDict (map (\<lambda>(k, v). (k, JNum v)) d)"

text \<open>
  The body of the \<open>try\<close> of \<open>_analyze_graph_structure\<close>, in the order Python evaluates it:
  the dict display, the diameter and path length of a connected graph, and the four
  centralities (betweenness with \<open>k=100\<close>) when there are at most 500 nodes.
\<close>

definition analysis_centrality :: "nx_lib \<Rightarrow> nx_graph \<Rightarrow> error + pydict" where
  "analysis_centrality nx graph =
     (if number_of_nodes graph \<le> 500 then
        bind_err (nx_degree_centrality nx graph) (\<lambda>degree.
        bind_err (betweenness_centrality nx graph (Some 100)) (\<lambda>betweenness.
        bind_err (nx_closeness_centrality nx graph) (\<lambda>closeness.
        bind_err (nx_eigenvector_centrality nx graph 100) (\<lambda>eigenvector.
          Inr [(''degree'', scores_json degree),
               (''betweenness'', scores_json betweenness),
               (''closeness'', scores_json closeness),
               (''eigenvector'', scores_json eigenvector)]))))
      else Inr [])"

definition analysis_paths :: "nx_lib \<Rightarrow> nx_graph \<Rightarrow> error + json \<times> json" where
  "analysis_paths nx graph =
     bind_err (is_connected graph) (\<lambda>connected.
       if connected then
         bind_err (diameter graph) (\<lambda>d.
         bind_err (nx_average_shortest_path_length nx graph) (\<lambda>l.
           Inr (JInt (int d), JNum l)))
       else Inr (JNull, JNull))"

definition analysis_try :: "nx_lib \<Rightarrow> nx_graph \<Rightarrow> error + pydict" where
  "analysis_try nx graph =
     bind_err (nx_density nx graph) (\<lambda>density.
     bind_err (is_connected graph) (\<lambda>connected.
     bind_err (nx_average_clustering nx graph) (\<lambda>clustering.
     bind_err (analysis_paths nx graph) (\<lambda>(diam, path_length).
     bind_err (analysis_centrality nx graph) (\<lambda>centrality.
       Inr [(''node_count'', JInt (int (number_of_nodes graph))),
            (''edge_count'', JInt (int (number_of_edges graph))),
            (''density'', JNum density),
            (''is_connected'', JBool connected),
            (''connected_components'', JInt (int (number_connected_components graph))),
            (''average_clustering'', JNum clustering),
            (''diameter'', diam),
            (''average_path_length'', path_length),
            (''centrality_measures'', JDict centrality)])))))"

text \<open>\<open>except Exception as e: return {"error": str(e)}\<close>.\<close>

definition analyze_graph_structure :: "nx_lib \<Rightarrow> nx_graph \<Rightarrow> pydict" where
  "analyze_graph_structure nx graph =
     (case analysis_try nx graph of
        Inl e \<Rightarrow> [(''error'', JStr (str_error e))]
      | Inr analysis \<Rightarrow> analysis)"

section \<open>Layout engine\<close>

text \<open>
  What the run time decides: the draws of \<open>np.random.uniform(-100, 100)\<close> in the order
  they are made, the string hash of the process, and the clock's readings.
\<close>

record runtime =
  uniform_draw :: "nat \<Rightarrow> real"
  str_hash :: "string \<Rightarrow> int"
  now_timestamp :: string
  now_isoformat :: string
  now_strftime :: string

type_synonym positions = "string \<rightharpoonup> vec3"

definition lookup_position :: "positions \<Rightarrow> string \<Rightarrow> error + vec3" where
  "lookup_position pos k = (case pos k of None \<Rightarrow> Inl (KeyError k) | Some p \<Rightarrow> Inr p)"

subsection \<open>Force-directed layout\<close>

text \<open>Three draws for each node, in the order of the node list.\<close>

fun init_positions :: "(nat \<Rightarrow> real) \<Rightarrow> nat \<Rightarrow> GraphNode list \<Rightarrow> positions \<Rightarrow> positions" where
  "init_positions draw i [] pos = pos"
| "init_positions draw i (node # rest) pos =
     init_positions draw (i + 3) rest
       (pos(node_id node \<mapsto> \<lparr> px = draw i, py = draw (i + 1), pz = draw (i + 2) \<rparr>))"

text \<open>
  \<open>forces\<close> is a \<open>defaultdict\<close> whose missing entries are the zero force. The list
  \<open>adjacency\<close> that the function fills is never read and is left out.
\<close>

type_synonym forces = "string \<Rightarrow> vec3"

definition zero_force :: forces where
  "zero_force = (\<lambda>k. \<lparr> px = 0, py = 0, pz = 0 \<rparr>)"

definition add_force :: "forces \<Rightarrow> string \<Rightarrow> real \<Rightarrow> real \<Rightarrow> real \<Rightarrow> forces" where
  "add_force f k fx fy fz =
     f(k := \<lparr> px = px (f k) + fx, py = py (f k) + fy, pz = pz (f k) + fz \<rparr>)"

definition sub_force :: "forces \<Rightarrow> string \<Rightarrow> real \<Rightarrow> real \<Rightarrow> real \<Rightarrow> forces" where
  "sub_force f k fx fy fz =
     f(k := \<lparr> px = px (f k) - fx, py = py (f k) - fy, pz = pz (f k) - fz \<rparr>)"

definition optimal_distance :: real where
  "optimal_distance = 50"

definition repulse :: "positions \<Rightarrow> GraphNode \<Rightarrow> GraphNode \<Rightarrow> forces \<Rightarrow> error + forces" where
  "repulse pos node1 node2 f =
     bind_err (lookup_position pos (node_id node1)) (\<lambda>pos1.
     bind_err (lookup_position pos (node_id node2)) (\<lambda>pos2.
       (let dx = px pos1 - px pos2; dy = py pos1 - py pos2; dz = pz pos1 - pz pos2;
            distance = max (sqrt (dx * dx + dy * dy + dz * dz)) (1 / 10);
            force = optimal_distance * optimal_distance / distance;
            fx = force * dx / distance; fy = force * dy / distance; fz = force * dz / distance
        in Inr (sub_force (add_force f (node_id node1) fx fy fz) (node_id node2) fx fy fz))))"

fun repulse_from :: "positions \<Rightarrow> GraphNode \<Rightarrow> GraphNode list \<Rightarrow> forces \<Rightarrow> error + forces" where
  "repulse_from pos node1 [] f = Inr f"
| "repulse_from pos node1 (node2 # rest) f =
     bind_err (repulse pos node1 node2 f) (repulse_from pos node1 rest)"

fun repulsive_forces :: "positions \<Rightarrow> GraphNode list \<Rightarrow> forces \<Rightarrow> error + forces" where
  "repulsive_forces pos [] f = Inr f"
| "repulsive_forces pos (node1 # rest) f =
     bind_err (repulse_from pos node1 rest f) (repulsive_forces pos rest)"

definition attract :: "positions \<Rightarrow> GraphEdge \<Rightarrow> forces \<Rightarrow> error + forces" where
  "attract pos edge f =
     bind_err (lookup_position pos (source edge)) (\<lambda>pos1.
     bind_err (lookup_position pos (target edge)) (\<lambda>pos2.
       (let dx = px pos2 - px pos1; dy = py pos2 - py pos1; dz = pz pos2 - pz pos1;
            distance = max (sqrt (dx * dx + dy * dy + dz * dz)) (1 / 10);
            force = distance * distance / optimal_distance * weight edge;
            fx = force * dx / distance; fy = force * dy / distance; fz = force * dz / distance
        in Inr (sub_force (add_force f (source edge) fx fy fz) (target edge) fx fy fz))))"

fun attractive_forces :: "positions \<Rightarrow> GraphEdge list \<Rightarrow> forces \<Rightarrow> error + forces" where
  "attractive_forces pos [] f = Inr f"
| "attractive_forces pos (edge # rest) f =
     bind_err (attract pos edge f) (attractive_forces pos rest)"

definition displace :: "forces \<Rightarrow> real \<Rightarrow> GraphNode \<Rightarrow> positions \<Rightarrow> error + positions" where
  "displace f temperature node pos =
     (let force = f (node_id node);
          force_magnitude = sqrt ((px force)\<^sup>2 + (py force)\<^sup>2 + (pz force)\<^sup>2)
      in if force_magnitude > 0 then
           bind_err (lookup_position pos (node_id node)) (\<lambda>p.
             (let displacement = min force_magnitude temperature
              in Inr (pos(node_id node \<mapsto>
                   \<lparr> px = px p + displacement * px force / force_magnitude,
                     py = py p + displacement * py force / force_magnitude,
                     pz = pz p + displacement * pz force / force_magnitude \<rparr>))))
         else Inr pos)"

fun apply_forces :: "forces \<Rightarrow> real \<Rightarrow> GraphNode list \<Rightarrow> positions \<Rightarrow> error + positions" where
  "apply_forces f temperature [] pos = Inr pos"
| "apply_forces f temperature (node # rest) pos =
     bind_err (displace f temperature node pos) (apply_forces f temperature rest)"

text \<open>One pass of \<open>for iteration in range(iterations)\<close>, and the passes that remain.\<close>

definition layout_step ::
  "GraphNode list \<Rightarrow> GraphEdge list \<Rightarrow> real \<Rightarrow> positions \<Rightarrow> error + positions" where
  "layout_step nodes edges temperature pos =
     bind_err (repulsive_forces pos nodes zero_force) (\<lambda>f1.
     bind_err (attractive_forces pos edges f1) (\<lambda>f2.
       apply_forces f2 temperature nodes pos))"

fun simulate ::
  "nat \<Rightarrow> GraphNode list \<Rightarrow> GraphEdge list \<Rightarrow> real \<Rightarrow> positions \<Rightarrow> error + positions" where
  "simulate 0 nodes edges temperature pos = Inr pos"
| "simulate (Suc n) nodes edges temperature pos =
     bind_err (layout_step nodes edges temperature pos)
       (simulate n nodes edges (temperature * (95 / 100)))"

definition force_directed_layout ::
  "runtime \<Rightarrow> GraphNode list \<Rightarrow> GraphEdge list \<Rightarrow> error + positions" where
  "force_directed_layout rt nodes edges =
     simulate 100 nodes edges 100 (init_positions (uniform_draw rt) 0 nodes Map.empty)"

subsection \<open>Hierarchical layout\<close>

text \<open>\<open>node_groups\<close>: the nodes of each type, the types in the order they are first seen.\<close>

fun group_append ::
  "GraphNode \<Rightarrow> (NodeType \<times> GraphNode list) list \<Rightarrow> (NodeType \<times> GraphNode list) list" where
  "group_append node [] = [(node_type node, [node])]"
| "group_append node ((t, ns) # rest) =
     (if t = node_type node then (t, ns @ [node]) # rest else (t, ns) # group_append node rest)"

definition node_groups :: "GraphNode list \<Rightarrow> (NodeType \<times> GraphNode list) list" where
  "node_groups nodes = foldl (\<lambda>groups node. group_append node groups) [] nodes"

fun layer_assignment :: "NodeType \<Rightarrow> nat" where
  "layer_assignment PAPER = 0"
| "layer_assignment AUTHOR = 1"
| "layer_assignment KEYWORD = 2"
| "layer_assignment CONCEPT = 2"
| "layer_assignment INSTITUTION = 3"
| "layer_assignment other = 0"

fun place_on_circle ::
  "real \<Rightarrow> real \<Rightarrow> nat \<Rightarrow> nat \<Rightarrow> GraphNode list \<Rightarrow> positions \<Rightarrow> positions" where
  "place_on_circle radius height count i [] pos = pos"
| "place_on_circle radius height count i (node # rest) pos =
     (let angle = 2 * pi * real i / real count
      in place_on_circle radius height count (Suc i) rest
           (pos(node_id node \<mapsto>
              \<lparr> px = radius * cos angle, py = height, pz = radius * sin angle \<rparr>)))"

definition place_group :: "NodeType \<times> GraphNode list \<Rightarrow> positions \<Rightarrow> positions" where
  "place_group g pos =
     (case g of (t, node_list) \<Rightarrow>
        (let y_position = real (layer_assignment t * 100);
             num_nodes = length node_list
         in case node_list of
              [node] \<Rightarrow> pos(node_id node \<mapsto> \<lparr> px = 0, py = y_position, pz = 0 \<rparr>)
            | other \<Rightarrow>
                place_on_circle (real (50 + num_nodes * 5)) y_position num_nodes 0 node_list pos))"

definition hierarchical_layout :: "GraphNode list \<Rightarrow> GraphEdge list \<Rightarrow> error + positions" where
  "hierarchical_layout nodes edges =
     Inr (foldl (\<lambda>pos g. place_group g pos) Map.empty (node_groups nodes))"

subsection \<open>Circular layout\<close>

text \<open>
  \<open>sorted(nodes, key=importance, reverse=True)\<close> keeps the order of nodes with equal
  scores, as the stable \<open>sort_key\<close> on the negated score does. The \<open>while\<close> loop cuts rings
  of at most 12 nodes.
\<close>

function circles_of :: "GraphNode list \<Rightarrow> GraphNode list list" where
  "circles_of remaining =
     (if remaining = [] then []
      else (let circle_size = min 12 (length remaining)
            in take circle_size remaining # circles_of (drop circle_size remaining)))"
  by pat_completeness auto
termination
  by (relation "measure length") (auto simp: min_def)

fun place_circles :: "nat \<Rightarrow> GraphNode list list \<Rightarrow> positions \<Rightarrow> positions" where
  "place_circles circle_idx [] pos = pos"
| "place_circles circle_idx (circle_nodes # rest) pos =
     place_circles (Suc circle_idx) rest
       (place_on_circle (real (50 + circle_idx * 80)) (real (circle_idx * 20))
          (length circle_nodes) 0 circle_nodes pos)"

definition circular_layout :: "GraphNode list \<Rightarrow> GraphEdge list \<Rightarrow> error + positions" where
  "circular_layout nodes edges =
     (if length nodes = 0 then Inr Map.empty
      else Inr (place_circles 0
             (circles_of (sort_key (\<lambda>n. - importance_score n) nodes)) Map.empty))"

subsection \<open>Spring layout\<close>

text \<open>
  The planar layout is the library's (\<open>k=3\<close>, 50 iterations) on a graph of the node ids and
  the weighted edges; a node it placed gets the depth \<open>hash(type) % 100 - 50\<close>.
\<close>

definition spring_graph :: "GraphNode list \<Rightarrow> GraphEdge list \<Rightarrow> nx_graph" where
  "spring_graph nodes edges =
     (let G1 = foldl (\<lambda>G node. add_node (node_id node) [] G) empty_graph nodes
      in foldl (\<lambda>G edge. add_edge (source edge) (target edge) [(''weight'', JNum (weight edge))] G)
           G1 edges)"

fun spring_positions ::
  "runtime \<Rightarrow> (string \<times> real \<times> real) list \<Rightarrow> GraphNode list \<Rightarrow> positions \<Rightarrow> positions" where
  "spring_positions rt pos_2d [] pos = pos"
| "spring_positions rt pos_2d (node # rest) pos =
     spring_positions rt pos_2d rest
       (case map_of pos_2d (node_id node) of
          None \<Rightarrow> pos
        | Some (x, y) \<Rightarrow>
            pos(node_id node \<mapsto>
              \<lparr> px = x * 200, py = y * 200,
                pz = real_of_int (str_hash rt (node_type_value (node_type node)) mod 100 - 50) \<rparr>))"

definition spring_layout ::
  "nx_lib \<Rightarrow> runtime \<Rightarrow> GraphNode list \<Rightarrow> GraphEdge list \<Rightarrow> error + positions" where
  "spring_layout nx rt nodes edges =
     bind_err (nx_spring_layout nx (spring_graph nodes edges) 3 50) (\<lambda>pos_2d.
       Inr (spring_positions rt pos_2d nodes Map.empty))"

subsection \<open>Selection by name\<close>

text \<open>A name that is not one of the four selects the force-directed layout.\<close>

definition generate_3d_layout ::
  "nx_lib \<Rightarrow> runtime \<Rightarrow> GraphNode list \<Rightarrow> GraphEdge list \<Rightarrow> string \<Rightarrow> error + positions" where
  "generate_3d_layout nx rt nodes edges algorithm =
     (if algorithm = ''hierarchical'' then hierarchical_layout nodes edges
      else if algorithm = ''circular'' then circular_layout nodes edges
      else if algorithm = ''spring'' then spring_layout nx rt nodes edges
      else force_directed_layout rt nodes edges)"

section \<open>Cluster detector\<close>

text \<open>Text helpers: \<open>str(n)\<close> of a natural number and \<open>str.title()\<close> on ASCII text.\<close>

function str_nat :: "nat \<Rightarrow> string" where
  "str_nat n =
     (if n < 10 then [char_of (48 + n)] else str_nat (n div 10) @ [char_of (48 + n mod 10)])"
  by pat_completeness auto
termination
  by (relation "measure id") auto

definition is_upper :: "char \<Rightarrow> bool" where
  "is_upper c = (65 \<le> (of_char c :: nat) \<and> (of_char c :: nat) \<le> 90)"

definition is_lower :: "char \<Rightarrow> bool" where
  "is_lower c = (97 \<le> (of_char c :: nat) \<and> (of_char c :: nat) \<le> 122)"

definition to_upper :: "char \<Rightarrow> char" where
  "to_upper c = (if is_lower c then char_of ((of_char c :: nat) - 32) else c)"

definition to_lower :: "char \<Rightarrow> char" where
  "to_lower c = (if is_upper c then char_of ((of_char c :: nat) + 32) else c)"

fun title_from :: "bool \<Rightarrow> string \<Rightarrow> string" where
  "title_from previous_cased [] = []"
| "title_from previous_cased (c # rest) =
     (if is_upper c \<or> is_lower c
      then (if previous_cased then to_lower c else to_upper c) # title_from True rest
      else c # title_from False rest)"

definition str_title :: "string \<Rightarrow> string" where
  "str_title s = title_from False s"

definition colors :: "string list" where
  "colors = [''#FF6B6B'', ''#4ECDC4'', ''#45B7D1'', ''#96CEB4'', ''#FFEAA7'', ''#DDA0DD'', ''#98D8C8'']"

text \<open>
  \<open>max(set(node_types), key=node_types.count)\<close>: the first of the most frequent values in
  the iteration order of the set, which Python leaves open; the order here is that of
  \<open>remdups\<close>. On an empty list \<open>max\<close> raises.
\<close>

definition most_common :: "string list \<Rightarrow> error + string" where
  "most_common xs =
     (case remdups xs of
        [] \<Rightarrow> Inl (ValueError ''max() arg is an empty sequence'')
      | y # ys \<Rightarrow>
          Inr (foldl (\<lambda>best z. if count_list xs z > count_list xs best then z else best) y ys))"

definition make_cluster :: "nat \<Rightarrow> string list \<Rightarrow> string \<Rightarrow> GraphCluster" where
  "make_cluster i community most_common_type =
     \<lparr> cluster_ident = ''cluster_'' @ str_nat i,
       cluster_name = str_title most_common_type @ '' Cluster '' @ str_nat (i + 1),
       description =
         ''Research cluster with '' @ str_nat (length community) @ '' related entities'',
       cluster_nodes = community,
       center = \<lparr> px = 0, py = 0, pz = 0 \<rparr>,
       color = colors ! (i mod length colors),
       cluster_size = length community \<rparr>"

text \<open>
  A community is the list of its members in the iteration order of the library's set.
  \<open>for i, community in enumerate(communities)\<close>: a community of fewer than two members
  is skipped.
\<close>

fun clusters_loop ::
  "nat \<Rightarrow> string list list \<Rightarrow> GraphNode list \<Rightarrow> GraphCluster list \<Rightarrow> error + GraphCluster list" where
  "clusters_loop i [] nodes clusters = Inr clusters"
| "clusters_loop i (community # rest) nodes clusters =
     (if length community < 2 then clusters_loop (Suc i) rest nodes clusters
      else
        (let community_nodes = filter (\<lambda>n. node_id n \<in> set community) nodes;
             node_types = map (\<lambda>n. node_type_value (node_type n)) community_nodes
         in bind_err (most_common node_types) (\<lambda>most_common_type.
              clusters_loop (Suc i) rest nodes
                (clusters @ [make_cluster i community most_common_type]))))"

text \<open>\<open>except Exception: return []\<close>.\<close>

definition detect_research_clusters :: "nx_lib \<Rightarrow> nx_graph \<Rightarrow> GraphNode list \<Rightarrow> GraphCluster list" where
  "detect_research_clusters nx graph nodes =
     (case bind_err (nx_louvain_communities nx graph) (\<lambda>communities.
             clusters_loop 0 communities nodes []) of
        Inl e \<Rightarrow> []
      | Inr clusters \<Rightarrow> clusters)"

section \<open>Importance scorer\<close>

definition score_get :: "(string \<times> real) list \<Rightarrow> string \<Rightarrow> real \<Rightarrow> real" where
  "score_get d k dflt = (case map_of d k of None \<Rightarrow> dflt | Some v \<Rightarrow> v)"

definition importance_try :: "nx_lib \<Rightarrow> nx_graph \<Rightarrow> error + (string \<times> real) list" where
  "importance_try nx graph =
     bind_err (nx_degree_centrality nx graph) (\<lambda>degree_centrality.
     bind_err (if number_of_nodes graph > 500
               then betweenness_centrality nx graph (Some 100)
               else betweenness_centrality nx graph None) (\<lambda>betweenness_centrality.
       Inr (map (\<lambda>node. (node, 6 / 10 * score_get degree_centrality node 0
                               + 4 / 10 * score_get betweenness_centrality node 0))
              (graph_nodes graph))))"

definition calculate_node_importance :: "nx_lib \<Rightarrow> nx_graph \<Rightarrow> (string \<times> real) list" where
  "calculate_node_importance nx graph =
     (case importance_try nx graph of Inl e \<Rightarrow> [] | Inr scores \<Rightarrow> scores)"

section \<open>Assembly, serialisation and persistence\<close>

fun find_node_cluster :: "string \<Rightarrow> GraphCluster list \<Rightarrow> string option" where
  "find_node_cluster nid [] = None"
| "find_node_cluster nid (cluster # rest) =
     (if nid \<in> set (cluster_nodes cluster) then Some (cluster_ident cluster)
      else find_node_cluster nid rest)"

text \<open>
  The loop of \<open>build_research_knowledge_graph\<close> over the nodes: \<open>layout.get\<close> with the
  origin as default, \<open>importance_scores.get\<close> with \<open>0.0\<close>.
\<close>

definition origin :: vec3 where
  "origin = \<lparr> px = 0, py = 0, pz = 0 \<rparr>"

definition update_node ::
  "positions \<Rightarrow> (string \<times> real) list \<Rightarrow> GraphCluster list \<Rightarrow> GraphNode \<Rightarrow> GraphNode" where
  "update_node layout importance_scores clusters node =
     node \<lparr> position := Some (case layout (node_id node) of None \<Rightarrow> origin | Some p \<Rightarrow> p),
            importance_score := score_get importance_scores (node_id node) 0,
            cluster_id := find_node_cluster (node_id node) clusters \<rparr>"

definition vec3_json :: "vec3 \<Rightarrow> json" where
  "vec3_json v = JDict [(''x'', JNum (px v)), (''y'', JNum (py v)), (''z'', JNum (pz v))]"

definition serialize_node :: "GraphNode \<Rightarrow> pydict" where
  "serialize_node node =
     [(''id'', JStr (node_id node)),
      (''label'', JStr (label node)),
      (''type'', JStr (node_type_value (node_type node))),
      (''properties'', JDict (properties node)),
      (''position'', (case position node of None \<Rightarrow> JNull | Some v \<Rightarrow> vec3_json v)),
      (''cluster'', jopt_str (cluster_id node)),
      (''importance'', JNum (importance_score node))]"

definition serialize_edge :: "GraphEdge \<Rightarrow> pydict" where
  "serialize_edge edge =
     [(''source'', JStr (source edge)),
      (''target'', JStr (target edge)),
      (''type'', JStr (edge_type_value (edge_type edge))),
      (''weight'', JNum (weight edge)),
      (''properties'', JDict (case edge_properties edge of None \<Rightarrow> [] | Some d \<Rightarrow> d))]"

definition serialize_cluster :: "GraphCluster \<Rightarrow> pydict" where
  "serialize_cluster cluster =
     [(''id'', JStr (cluster_ident cluster)),
      (''name'', JStr (cluster_name cluster)),
      (''description'', JStr (description cluster)),
      (''nodes'', JList (map JStr (cluster_nodes cluster))),
      (''center'', vec3_json (center cluster)),
      (''color'', JStr (color cluster)),
      (''size'', JInt (int (cluster_size cluster)))]"

text \<open>The dict \<open>graph_data\<close>, one field per key.\<close>

record graph_data =
  gd_id :: string
  gd_metadata :: pydict
  gd_nodes :: "pydict list"
  gd_edges :: "pydict list"
  gd_clusters :: "pydict list"
  gd_analysis :: pydict
  gd_layout_algorithm :: string

definition provisional_id :: "runtime \<Rightarrow> string \<Rightarrow> string" where
  "provisional_id rt user_id = ''kg_'' @ user_id @ ''_'' @ now_timestamp rt"

definition assemble ::
  "runtime \<Rightarrow> string \<Rightarrow> GraphNode list \<Rightarrow> GraphEdge list \<Rightarrow> GraphCluster list \<Rightarrow> pydict
     \<Rightarrow> graph_data" where
  "assemble rt user_id nodes edges clusters analysis =
     \<lparr> gd_id = provisional_id rt user_id,
       gd_metadata =
         [(''created_by'', JStr user_id),
          (''created_at'', JStr (now_isoformat rt)),
          (''node_count'', JInt (int (length nodes))),
          (''edge_count'', JInt (int (length edges))),
          (''cluster_count'', JInt (int (length clusters)))],
       gd_nodes = map serialize_node nodes,
       gd_edges = map serialize_edge edges,
       gd_clusters = map serialize_cluster clusters,
       gd_analysis = analysis,
       gd_layout_algorithm = ''force_directed'' \<rparr>"

text \<open>
  \<open>_save_knowledge_graph\<close>: the row is added and committed and the dict's id becomes the
  row's; on an exception the handler logs, rolls back and returns, so only a failing
  rollback leaves the function as an exception. The constructor is called with
  \<open>metadata=\<close>, which is not a column of the model: the mapped column is
  \<open>graph_metadata\<close>, and it stays empty in the stored row.
\<close>

definition knowledge_graph_row :: "runtime \<Rightarrow> graph_data \<Rightarrow> string \<Rightarrow> KnowledgeGraphRow" where
  "knowledge_graph_row rt gd user_id =
     \<lparr> row_name = ''Research Graph '' @ now_strftime rt,
       row_description = ''AI-generated research knowledge graph'',
       row_nodes = [(''nodes'', JList (map JDict (gd_nodes gd)))],
       row_edges = [(''edges'', JList (map JDict (gd_edges gd)))],
       row_graph_metadata = JNull,
       created_by_id = user_id,
       is_public = False \<rparr>"

definition save_knowledge_graph ::
  "session \<Rightarrow> runtime \<Rightarrow> graph_data \<Rightarrow> string \<Rightarrow> error + graph_data" where
  "save_knowledge_graph sess rt gd user_id =
     (case commit sess (knowledge_graph_row rt gd user_id) of
        Inr kg_id \<Rightarrow> Inr (gd \<lparr> gd_id := kg_id \<rparr>)
      | Inl e \<Rightarrow> (case rollback sess of Inl e' \<Rightarrow> Inl e' | Inr u \<Rightarrow> Inr gd))"

text \<open>
  \<open>build_research_knowledge_graph\<close>. \<open>build_body\<close> is the body of
  \<open>async with get_async_session()\<close>. The context manager of
  \<^verbatim>\<open>app/database.py\<close> closes the session on the way out; when an exception leaves the
  body it first rolls back and raises the exception again. An exception of \<open>close\<close>
  replaces one that is under way, and one of \<open>rollback\<close> the body's. The outer handler
  logs and raises.
\<close>

definition build_body ::
  "session \<Rightarrow> nx_lib \<Rightarrow> runtime \<Rightarrow> string \<Rightarrow> string list option \<Rightarrow> string list option
     \<Rightarrow> string list option \<Rightarrow> int \<Rightarrow> error + graph_data" where
  "build_body sess nx rt user_id papers authors_filter keywords_filter max_nodes =
     bind_err (collect_graph_data sess papers authors_filter keywords_filter max_nodes)
       (\<lambda>(nodes, edges).
          (let nx_graph = create_networkx_graph nodes edges;
               analysis = analyze_graph_structure nx nx_graph
           in bind_err (generate_3d_layout nx rt nodes edges ''force_directed'') (\<lambda>layout.
                (let clusters = detect_research_clusters nx nx_graph nodes;
                     importance_scores = calculate_node_importance nx nx_graph;
                     nodes' = map (update_node layout importance_scores clusters) nodes;
                     gd = assemble rt user_id nodes' edges clusters analysis
                 in save_knowledge_graph sess rt gd user_id))))"

definition build_research_knowledge_graph ::
  "session \<Rightarrow> nx_lib \<Rightarrow> runtime \<Rightarrow> string \<Rightarrow> string list option \<Rightarrow> string list option
     \<Rightarrow> string list option \<Rightarrow> int \<Rightarrow> error + graph_data" where
  "build_research_knowledge_graph sess nx rt user_id papers authors_filter keywords_filter max_nodes =
     (case build_body sess nx rt user_id papers authors_filter keywords_filter max_nodes of
        Inr gd \<Rightarrow> (case close sess of Inl e2 \<Rightarrow> Inl e2 | Inr u \<Rightarrow> Inr gd)
      | Inl e \<Rightarrow>
          (case close sess of
             Inl e2 \<Rightarrow> Inl e2
           | Inr u \<Rightarrow> (case rollback sess of Inl e1 \<Rightarrow> Inl e1 | Inr v \<Rightarrow> Inl e)))"

section \<open>Edges without a node\<close>

text \<open>
  The first endpoint, in the order the layout reads the edges (source before target),
  that is not among the given ids.
\<close>

fun first_missing_endpoint :: "string set \<Rightarrow> GraphEdge list \<Rightarrow> string option" where
  "first_missing_endpoint ids [] = None"
| "first_missing_endpoint ids (edge # rest) =
     (if source edge \<notin> ids then Some (source edge)
      else if target edge \<notin> ids then Some (target edge)
      else first_missing_endpoint ids rest)"

definition node_ids_of :: "GraphNode list \<Rightarrow> string set" where
  "node_ids_of nodes = set (map node_id nodes)"

section \<open>Reading the serialised nodes\<close>

fun is_position_json :: "json \<Rightarrow> bool" where
  "is_position_json (JDict [(kx, JNum a), (ky, JNum b), (kz, JNum c)]) =
     (kx = ''x'' \<and> ky = ''y'' \<and> kz = ''z'')"
| "is_position_json other = False"

definition node_has_position :: "pydict \<Rightarrow> bool" where
  "node_has_position nd =
     (case map_of nd ''position'' of None \<Rightarrow> False | Some j \<Rightarrow> is_position_json j)"

fun is_number_json :: "json \<Rightarrow> bool" where
  "is_number_json (JNum r) = True"
| "is_number_json (JInt i) = True"
| "is_number_json other = False"

definition node_has_importance :: "pydict \<Rightarrow> bool" where
  "node_has_importance nd =
     (case map_of nd ''importance'' of None \<Rightarrow> False | Some j \<Rightarrow> is_number_json j)"

section \<open>A metric computation that raises\<close>

text \<open>
  One of the computations that \<open>_analyze_graph_structure\<close> makes for the graph raises: the
  density, the connectivity test, the average clustering; for a connected graph the
  diameter or the average path length; for at most 500 nodes one of the four
  centralities.
\<close>

definition metric_raises :: "nx_lib \<Rightarrow> nx_graph \<Rightarrow> bool" where
  "metric_raises nx graph =
     (isl (nx_density nx graph) \<or> isl (is_connected graph) \<or>
      isl (nx_average_clustering nx graph) \<or>
      (is_connected graph = Inr True \<and>
         (isl (diameter graph) \<or> isl (nx_average_shortest_path_length nx graph))) \<or>
      (number_of_nodes graph \<le> 500 \<and>
         (isl (nx_degree_centrality nx graph) \<or>
          isl (betweenness_centrality nx graph (Some 100)) \<or>
          isl (nx_closeness_centrality nx graph) \<or>
          isl (nx_eigenvector_centrality nx graph 100))))"

section \<open>Storage identities\<close>



section \<open>Degree centrality\<close>

text \<open>
  \<open>nx.degree_centrality\<close>, the routine behind \<open>nx_degree_centrality\<close>: 1 for each node of a
  graph of at most one node, else the node's degree times \<open>1 / (n - 1)\<close>. The degree
  counts the edges at the node, a self-loop twice.
\<close>

definition degree :: "nx_graph \<Rightarrow> string \<Rightarrow> nat" where
  "degree G v = length (neighbors G v)"

definition degree_centrality :: "nx_graph \<Rightarrow> (string \<times> real) list" where
  "degree_centrality G =
     (if number_of_nodes G \<le> 1 then map (\<lambda>n. (n, 1)) (graph_nodes G)
      else map (\<lambda>n. (n, real (degree G n) * (1 / (real (number_of_nodes G) - 1))))
             (graph_nodes G))"

section \<open>Example data\<close>

text \<open>
  An in-memory session for the examples: the rows of a table in insertion order, the
  \<open>where\<close> filter, then the limit (a negative limit is refused, as PostgreSQL does);
  \<open>commit\<close> and \<open>rollback\<close> answer as given, and \<open>close\<close> returns.
\<close>

definition table_execute :: "ResearchPaper list \<Rightarrow> paper_query \<Rightarrow> error + ResearchPaper list" where
  "table_execute rows q =
     (if query_limit q < 0 then Inl (DatabaseError ''LIMIT must not be negative'')
      else Inr (take (nat (query_limit q))
             (case where_ids q of None \<Rightarrow> rows
              | Some ids \<Rightarrow> filter (\<lambda>r. paper_id r \<in> set ids) rows)))"

definition table_session ::
  "ResearchPaper list \<Rightarrow> (KnowledgeGraphRow \<Rightarrow> error + string) \<Rightarrow> error + unit \<Rightarrow> session" where
  "table_session rows c r =
     \<lparr> execute = table_execute rows, commit = c, rollback = r, close = Inr () \<rparr>"

definition researcher :: "string \<Rightarrow> string \<Rightarrow> Researcher" where
  "researcher i n =
     \<lparr> researcher_id = i, researcher_name = n, institution = None, orcid = None,
       h_index = None, total_citations = 0 \<rparr>"

definition keyword_row :: "string \<Rightarrow> string \<Rightarrow> Keyword" where
  "keyword_row i t = \<lparr> keyword_id = i, keyword_term = t, category = None, usage_count = 0 \<rparr>"

definition paper_row ::
  "string \<Rightarrow> string \<Rightarrow> Researcher list \<Rightarrow> Keyword list \<Rightarrow> Citation list \<Rightarrow> ResearchPaper" where
  "paper_row i t as ks cs =
     \<lparr> paper_id = i, title = t, abstract = None, doi = None, publication_date = None,
       citation_count = 0, research_domains = None, has_null_results = False,
       paper_authors = as, paper_keywords = ks, citations_made = cs \<rparr>"

text \<open>One paper with two authors.\<close>

definition paper_two_authors :: ResearchPaper where
  "paper_two_authors =
     paper_row ''p1'' ''Graphs'' [researcher ''a1'' ''Ada'', researcher ''a2'' ''Bob''] [] []"

text \<open>One paper with one author and one keyword.\<close>

definition paper_author_keyword :: ResearchPaper where
  "paper_author_keyword =
     paper_row ''p1'' ''Graphs'' [researcher ''a1'' ''Ada''] [keyword_row ''k1'' ''graph''] []"

definition endpoints :: "GraphEdge \<Rightarrow> string \<times> string \<times> EdgeType" where
  "endpoints e = (source e, target e, edge_type e)"

text \<open>
  A run time and a library for the examples: every draw is 0, and the library's answers
  are those for a graph whose nodes are all isolated (density, clustering, path length,
  betweenness and closeness 0, degree and eigenvector centrality 1, one community per
  node, planar positions at the centre).
\<close>

definition example_runtime :: runtime where
  "example_runtime =
     \<lparr> uniform_draw = (\<lambda>i. 0), str_hash = (\<lambda>s. 0), now_timestamp = ''1700000000.0'',
       now_isoformat = ''2023-11-14T22:13:20'', now_strftime = ''2023-11-14 22:13'' \<rparr>"

definition constant_scores :: "real \<Rightarrow> nx_graph \<Rightarrow> (string \<times> real) list" where
  "constant_scores c G = map (\<lambda>n. (n, c)) (graph_nodes G)"

definition example_nx :: nx_lib where
  "example_nx =
     \<lparr> nx_density = (\<lambda>G. Inr 0),
       nx_average_clustering = (\<lambda>G. Inr 0),
       nx_average_shortest_path_length = (\<lambda>G. Inr 0),
       nx_degree_centrality = (\<lambda>G. Inr (constant_scores 1 G)),
       nx_betweenness = (\<lambda>G k. Inr (constant_scores 0 G)),
       nx_closeness_centrality = (\<lambda>G. Inr (constant_scores 0 G)),
       nx_eigenvector_centrality = (\<lambda>G max_iter. Inr (constant_scores 1 G)),
       nx_louvain_communities = (\<lambda>G. Inr (map (\<lambda>n. [n]) (graph_nodes G))),
       nx_spring_layout = (\<lambda>G k iterations. Inr (map (\<lambda>n. (n, 0, 0)) (graph_nodes G))) \<rparr>"



definition storing_commit :: "KnowledgeGraphRow \<Rightarrow> error + string" where
  "storing_commit row = Inr ''7d4f2c1e-0000-4000-8000-000000000001''"

text \<open>Three papers, the first citing the second and the second the third.\<close>

definition plain_node :: "string \<Rightarrow> NodeType \<Rightarrow> GraphNode" where
  "plain_node i t =
     \<lparr> node_id = i, label = i, node_type = t, properties = [], position = None,
       cluster_id = None, importance_score = 0 \<rparr>"

definition plain_edge :: "string \<Rightarrow> string \<Rightarrow> EdgeType \<Rightarrow> GraphEdge" where
  "plain_edge s t ty =
     \<lparr> source = s, target = t, edge_type = ty, weight = 1, edge_properties = None \<rparr>"

definition three_papers :: "GraphNode list" where
  "three_papers = [plain_node ''P1'' PAPER, plain_node ''P2'' PAPER, plain_node ''P3'' PAPER]"

definition two_citations :: "GraphEdge list" where
  "two_citations = [plain_edge ''P1'' ''P2'' CITES, plain_edge ''P2'' ''P3'' CITES]"

text \<open>
  A library that answers the community detection with the pair P1, P2 and the single P3.
\<close>

definition pair_and_single :: nx_lib where
  "pair_and_single =
     example_nx \<lparr> nx_louvain_communities := (\<lambda>G. Inr [[''P1'', ''P2''], [''P3'']]) \<rparr>"

text \<open>
  The example library with the degree centrality of \<open>nx.degree_centrality\<close>; its
  betweenness 0 is the library's value on every graph of two nodes.
\<close>

definition degree_nx :: nx_lib where
  "degree_nx = example_nx \<lparr> nx_degree_centrality := (\<lambda>G. Inr (degree_centrality G)) \<rparr>"

text \<open>One paper with one author and a citation of itself.\<close>

definition paper_citing_itself :: ResearchPaper where
  "paper_citing_itself =
     paper_row ''p1'' ''Graphs'' [researcher ''a1'' ''Ada'']
       [] [\<lparr> cited_paper_id = ''p1'', citation_context = None, citation_type = None \<rparr>]"

text \<open>
  The graph the analysis stage builds from what the collector returns for that paper: two nodes,
  the authorship edge and the citation edge from the paper to itself.
\<close>

definition self_citation_graph :: nx_graph where
  "self_citation_graph =
     (case collect_from [paper_citing_itself] 10 of
        (nodes, edges) \<Rightarrow> create_networkx_graph nodes edges)"

section \<open>The node budget\<close>

lemma author_loop_length:
  "author_loop m pid as (ns, es, ids) = (ns', es', ids') \<Longrightarrow> int (length ns) \<le> m
     \<Longrightarrow> int (length ns') \<le> m"
proof (induction as arbitrary: ns es ids)
  case Nil
  then show ?case by simp
next
  case (Cons a as)
  from Cons.prems show ?case
    by (auto simp: Let_def split: if_splits dest!: Cons.IH)
qed

lemma keyword_loop_length:
  "keyword_loop m pid ks (ns, es, ids) = (ns', es', ids') \<Longrightarrow> int (length ns) \<le> m
     \<Longrightarrow> int (length ns') \<le> m"
proof (induction ks arbitrary: ns es ids)
  case Nil
  then show ?case by simp
next
  case (Cons k ks)
  from Cons.prems show ?case
    by (auto simp: Let_def split: if_splits dest!: Cons.IH)
qed

lemma paper_loop_length:
  "paper_loop m ps (ns, es, ids) = (ns', es', ids') \<Longrightarrow> int (length ns) \<le> m
     \<Longrightarrow> int (length ns') \<le> m"
proof (induction ps arbitrary: ns es ids)
  case Nil
  then show ?case by simp
next
  case (Cons p ps)
  show ?case
  proof (cases "int (length ns) \<ge> m")
    case True
    with Cons.prems show ?thesis by simp
  next
    case False
    obtain n1 e1 i1 where a: "author_loop m (node_id (paper_node p)) (paper_authors p)
        (ns @ [paper_node p], es, insert (node_id (paper_node p)) ids) = (n1, e1, i1)"
      by (metis prod_cases3)
    obtain n2 e2 i2 where k: "keyword_loop m (node_id (paper_node p)) (paper_keywords p) (n1, e1, i1)
        = (n2, e2, i2)"
      by (metis prod_cases3)
    from False have "int (length (ns @ [paper_node p])) \<le> m" by simp
    from author_loop_length [OF a this] have "int (length n1) \<le> m" .
    from keyword_loop_length [OF k this] have n2: "int (length n2) \<le> m" .
    from Cons.prems(1) False a k have "paper_loop m ps (n2, e2, i2) = (ns', es', ids')"
      by (simp add: Let_def)
    from Cons.IH [OF this n2] show ?thesis .
  qed
qed

text \<open>
  C2. Whatever the session answers and whatever the filters, the node list that
  \<open>_collect_graph_data\<close> returns for a budget \<open>max_nodes\<close> (a count, so not negative) has
  at most \<open>max_nodes\<close> entries: a paper, an author and a keyword are admitted only below
  the budget.
\<close>

theorem collect_graph_data_node_budget:
  assumes "0 \<le> max_nodes"
    and "collect_graph_data sess papers authors_filter keywords_filter max_nodes = Inr (nodes, edges)"
  shows "int (length nodes) \<le> max_nodes"
proof -
  from assms(2) obtain papers_data where
    "collect_from papers_data max_nodes = (nodes, edges)"
    by (auto simp: collect_graph_data_def split: sum.splits)
  then obtain es ids where "paper_loop max_nodes papers_data ([], [], {}) = (nodes, es, ids)"
    by (auto simp: collect_from_def split: prod.splits)
  from paper_loop_length [OF this] assms(1) show ?thesis by simp
qed

lemma collect_two_authors:
  "collect_graph_data (table_session [paper_two_authors] c r) None None None 2 =
     Inr ([paper_node paper_two_authors, author_node (researcher ''a1'' ''Ada'')],
          [\<lparr> source = ''author_a1'', target = ''paper_p1'', edge_type = AUTHORED_BY,
              weight = 1, edge_properties = None \<rparr>,
           \<lparr> source = ''author_a2'', target = ''paper_p1'', edge_type = AUTHORED_BY,
              weight = 1, edge_properties = None \<rparr>])"
  by (simp add: collect_graph_data_def collect_query_def table_session_def table_execute_def
      collect_from_def paper_two_authors_def paper_row_def researcher_def Let_def
      paper_node_def author_node_def)

theorem collect_graph_data_node_budget_witness:
  "(0::int) \<le> 2 \<and>
   collect_graph_data (table_session [paper_two_authors] (\<lambda>k. Inr ''id'') (Inr ())) None None None 2 =
     Inr ([paper_node paper_two_authors, author_node (researcher ''a1'' ''Ada'')],
          [\<lparr> source = ''author_a1'', target = ''paper_p1'', edge_type = AUTHORED_BY,
              weight = 1, edge_properties = None \<rparr>,
           \<lparr> source = ''author_a2'', target = ''paper_p1'', edge_type = AUTHORED_BY,
              weight = 1, edge_properties = None \<rparr>]) \<and>
   int (length [paper_node paper_two_authors, author_node (researcher ''a1'' ''Ada'')]) \<le> 2"
proof -
  note run = collect_two_authors [of "\<lambda>k. Inr ''id''" "Inr ()"]
  have "(0::int) \<le> 2" by simp
  from collect_graph_data_node_budget [OF this run] run show ?thesis by simp
qed

text \<open>
  C3. One paper with two authors and a budget of 2: the node list is the paper and the
  first author, and the edge list holds two \<open>authored_by\<close> edges, the second from
  \<open>author_a2\<close>, which has no node.
\<close>

theorem collect_two_authors_budget_two:
  "\<exists>nodes edges.
     collect_graph_data (table_session [paper_two_authors] c r) None None None 2 = Inr (nodes, edges) \<and>
     map node_id nodes = [''paper_p1'', ''author_a1''] \<and>
     map endpoints edges =
       [(''author_a1'', ''paper_p1'', AUTHORED_BY), (''author_a2'', ''paper_p1'', AUTHORED_BY)] \<and>
     ''author_a2'' \<notin> set (map node_id nodes)"
proof (intro exI conjI)
  show "collect_graph_data (table_session [paper_two_authors] c r) None None None 2 =
      Inr ([paper_node paper_two_authors, author_node (researcher ''a1'' ''Ada'')],
          [\<lparr> source = ''author_a1'', target = ''paper_p1'', edge_type = AUTHORED_BY,
              weight = 1, edge_properties = None \<rparr>,
           \<lparr> source = ''author_a2'', target = ''paper_p1'', edge_type = AUTHORED_BY,
              weight = 1, edge_properties = None \<rparr>])"
    by (rule collect_two_authors)
qed (simp_all add: endpoints_def paper_node_def author_node_def paper_two_authors_def
    paper_row_def researcher_def)

section \<open>The force-directed layout: keys and failures\<close>

lemma dom_init_positions:
  "dom (init_positions draw i nodes pos) = dom pos \<union> node_ids_of nodes"
  by (induction nodes arbitrary: i pos) (auto simp: node_ids_of_def)

lemma lookup_position_dom: "k \<in> dom pos \<Longrightarrow> \<exists>p. lookup_position pos k = Inr p"
  by (auto simp: lookup_position_def)

lemma lookup_position_missing: "k \<notin> dom pos \<Longrightarrow> lookup_position pos k = Inl (KeyError k)"
  by (auto simp: lookup_position_def split: option.splits)

lemma repulse_ok:
  "node_id n1 \<in> dom pos \<Longrightarrow> node_id n2 \<in> dom pos \<Longrightarrow> \<exists>f'. repulse pos n1 n2 f = Inr f'"
  by (auto simp: repulse_def bind_err_def lookup_position_def Let_def)

lemma repulse_from_ok:
  "node_id n1 \<in> dom pos \<Longrightarrow> node_ids_of ns \<subseteq> dom pos \<Longrightarrow> \<exists>f'. repulse_from pos n1 ns f = Inr f'"
proof (induction ns arbitrary: f)
  case Nil
  then show ?case by simp
next
  case (Cons n ns)
  then obtain f1 where "repulse pos n1 n f = Inr f1"
    using repulse_ok [of n1 pos n f] by (auto simp: node_ids_of_def)
  moreover from Cons have "\<exists>f'. repulse_from pos n1 ns f1 = Inr f'"
    by (simp add: node_ids_of_def)
  ultimately show ?case by (simp add: bind_err_def)
qed

lemma repulsive_forces_ok:
  "node_ids_of ns \<subseteq> dom pos \<Longrightarrow> \<exists>f'. repulsive_forces pos ns f = Inr f'"
proof (induction ns arbitrary: f)
  case Nil
  then show ?case by simp
next
  case (Cons n ns)
  then obtain f1 where "repulse_from pos n ns f = Inr f1"
    using repulse_from_ok [of n pos ns f] by (auto simp: node_ids_of_def)
  moreover from Cons have "\<exists>f'. repulsive_forces pos ns f1 = Inr f'"
    by (simp add: node_ids_of_def)
  ultimately show ?case by (simp add: bind_err_def)
qed

lemma attract_ok:
  "source e \<in> dom pos \<Longrightarrow> target e \<in> dom pos \<Longrightarrow> \<exists>f'. attract pos e f = Inr f'"
  by (auto simp: attract_def bind_err_def lookup_position_def Let_def)

lemma attract_missing_source:
  "source e \<notin> dom pos \<Longrightarrow> attract pos e f = Inl (KeyError (source e))"
  by (simp add: attract_def bind_err_def lookup_position_missing)

lemma attract_missing_target:
  "source e \<in> dom pos \<Longrightarrow> target e \<notin> dom pos \<Longrightarrow> attract pos e f = Inl (KeyError (target e))"
  by (auto simp: attract_def bind_err_def lookup_position_def split: option.splits)

lemma attractive_forces_ok:
  "first_missing_endpoint (dom pos) es = None \<Longrightarrow> \<exists>f'. attractive_forces pos es f = Inr f'"
proof (induction es arbitrary: f)
  case Nil
  then show ?case by simp
next
  case (Cons e es)
  from Cons.prems have s: "source e \<in> dom pos" and t: "target e \<in> dom pos"
    and r: "first_missing_endpoint (dom pos) es = None"
    by (auto split: if_splits)
  from attract_ok [OF s t] obtain f1 where "attract pos e f = Inr f1" by blast
  with Cons.IH [OF r, of f1] show ?case by (simp add: bind_err_def)
qed

lemma attractive_forces_missing:
  "first_missing_endpoint (dom pos) es = Some k \<Longrightarrow> attractive_forces pos es f = Inl (KeyError k)"
proof (induction es arbitrary: f)
  case Nil
  then show ?case by simp
next
  case (Cons e es)
  show ?case
  proof (cases "source e \<in> dom pos \<and> target e \<in> dom pos")
    case True
    with Cons.prems have r: "first_missing_endpoint (dom pos) es = Some k" by simp
    from True attract_ok obtain f1 where "attract pos e f = Inr f1" by blast
    with Cons.IH [OF r, of f1] show ?thesis by (simp add: bind_err_def)
  next
    case False
    with Cons.prems show ?thesis
      by (auto simp: bind_err_def attract_missing_source attract_missing_target split: if_splits)
  qed
qed

lemma displace_ok:
  "node_id n \<in> dom pos \<Longrightarrow> \<exists>pos'. displace f t n pos = Inr pos' \<and> dom pos' = dom pos"
  by (auto simp: displace_def bind_err_def lookup_position_def Let_def)

lemma apply_forces_ok:
  "node_ids_of ns \<subseteq> dom pos \<Longrightarrow> \<exists>pos'. apply_forces f t ns pos = Inr pos' \<and> dom pos' = dom pos"
proof (induction ns arbitrary: pos)
  case Nil
  then show ?case by simp
next
  case (Cons n ns)
  then obtain p1 where p1: "displace f t n pos = Inr p1" "dom p1 = dom pos"
    using displace_ok [of n pos f t] by (auto simp: node_ids_of_def)
  with Cons.prems have "node_ids_of ns \<subseteq> dom p1" by (simp add: node_ids_of_def)
  from Cons.IH [OF this] p1 show ?case by (auto simp: bind_err_def)
qed

lemma layout_step_ok:
  assumes "node_ids_of ns \<subseteq> dom pos" and "first_missing_endpoint (dom pos) es = None"
  shows "\<exists>pos'. layout_step ns es t pos = Inr pos' \<and> dom pos' = dom pos"
proof -
  from repulsive_forces_ok [OF assms(1)] obtain f1 where
    f1: "repulsive_forces pos ns zero_force = Inr f1" by blast
  from attractive_forces_ok [OF assms(2)] obtain f2 where
    f2: "attractive_forces pos es f1 = Inr f2" by blast
  from apply_forces_ok [OF assms(1)] obtain pos' where
    "apply_forces f2 t ns pos = Inr pos'" "dom pos' = dom pos" by blast
  with f1 f2 show ?thesis by (simp add: layout_step_def bind_err_def)
qed

lemma layout_step_missing:
  assumes "node_ids_of ns \<subseteq> dom pos" and "first_missing_endpoint (dom pos) es = Some k"
  shows "layout_step ns es t pos = Inl (KeyError k)"
proof -
  from repulsive_forces_ok [OF assms(1)] obtain f1 where
    f1: "repulsive_forces pos ns zero_force = Inr f1" by blast
  with attractive_forces_missing [OF assms(2), of f1] show ?thesis
    by (simp add: layout_step_def bind_err_def)
qed

lemma simulate_ok:
  "node_ids_of ns \<subseteq> dom pos \<Longrightarrow> first_missing_endpoint (dom pos) es = None
     \<Longrightarrow> \<exists>pos'. simulate n ns es t pos = Inr pos' \<and> dom pos' = dom pos"
proof (induction n arbitrary: t pos)
  case 0
  then show ?case by simp
next
  case (Suc n)
  from layout_step_ok [OF Suc.prems] obtain p1 where
    p1: "layout_step ns es t pos = Inr p1" "dom p1 = dom pos" by blast
  with Suc.prems have "node_ids_of ns \<subseteq> dom p1" "first_missing_endpoint (dom p1) es = None"
    by simp_all
  from Suc.IH [OF this] p1 show ?case by (auto simp: bind_err_def)
qed

lemma simulate_missing:
  "node_ids_of ns \<subseteq> dom pos \<Longrightarrow> first_missing_endpoint (dom pos) es = Some k
     \<Longrightarrow> simulate (Suc n) ns es t pos = Inl (KeyError k)"
  by (simp add: bind_err_def layout_step_missing)

lemma force_directed_layout_ok:
  assumes "first_missing_endpoint (node_ids_of ns) es = None"
  shows "\<exists>pos. force_directed_layout rt ns es = Inr pos \<and> dom pos = node_ids_of ns"
proof -
  let ?p = "init_positions (uniform_draw rt) 0 ns Map.empty"
  have d: "dom ?p = node_ids_of ns" by (simp add: dom_init_positions)
  with assms have "node_ids_of ns \<subseteq> dom ?p" "first_missing_endpoint (dom ?p) es = None"
    by simp_all
  from simulate_ok [OF this] d show ?thesis by (simp add: force_directed_layout_def)
qed

lemma force_directed_layout_missing:
  assumes "first_missing_endpoint (node_ids_of ns) es = Some k"
  shows "force_directed_layout rt ns es = Inl (KeyError k)"
proof -
  let ?p = "init_positions (uniform_draw rt) 0 ns Map.empty"
  have d: "dom ?p = node_ids_of ns" by (simp add: dom_init_positions)
  with assms have a: "node_ids_of ns \<subseteq> dom ?p" "first_missing_endpoint (dom ?p) es = Some k"
    by simp_all
  have e: "(100::nat) = Suc 99" by simp
  show ?thesis unfolding force_directed_layout_def e by (rule simulate_missing [OF a])
qed

section \<open>The build and edges without a node\<close>

lemma generate_force_directed:
  "generate_3d_layout nx rt ns es ''force_directed'' = force_directed_layout rt ns es"
  by (simp add: generate_3d_layout_def)

lemma build_body_missing:
  assumes "collect_graph_data sess papers af kf max_nodes = Inr (nodes, edges)"
    and "first_missing_endpoint (node_ids_of nodes) edges = Some k"
  shows "build_body sess nx rt user_id papers af kf max_nodes = Inl (KeyError k)"
  using assms force_directed_layout_missing [OF assms(2), of rt]
  by (simp add: build_body_def bind_err_def generate_force_directed Let_def)

lemma build_body_ok:
  assumes "collect_graph_data sess papers af kf max_nodes = Inr (nodes, edges)"
    and "first_missing_endpoint (node_ids_of nodes) edges = None"
  shows "\<exists>layout. force_directed_layout rt nodes edges = Inr layout \<and> dom layout = node_ids_of nodes \<and>
     build_body sess nx rt user_id papers af kf max_nodes =
       save_knowledge_graph sess rt
         (assemble rt user_id
            (map (update_node layout
                    (calculate_node_importance nx (create_networkx_graph nodes edges))
                    (detect_research_clusters nx (create_networkx_graph nodes edges) nodes)) nodes)
            edges
            (detect_research_clusters nx (create_networkx_graph nodes edges) nodes)
            (analyze_graph_structure nx (create_networkx_graph nodes edges)))
         user_id"
proof -
  from force_directed_layout_ok [OF assms(2), of rt] obtain layout where
    l: "force_directed_layout rt nodes edges = Inr layout" "dom layout = node_ids_of nodes"
    by blast
  with assms(1) show ?thesis
    by (simp add: build_body_def bind_err_def generate_force_directed Let_def)
qed

lemma build_body_no_missing_endpoint:
  assumes "build_body sess nx rt user_id papers af kf max_nodes = Inr gd"
    and "collect_graph_data sess papers af kf max_nodes = Inr (nodes, edges)"
  shows "first_missing_endpoint (node_ids_of nodes) edges = None"
proof (cases "first_missing_endpoint (node_ids_of nodes) edges")
  case None
  then show ?thesis .
next
  case (Some k)
  from build_body_missing [OF assms(2) Some] assms(1) show ?thesis by simp
qed

lemma collect_author_keyword:
  "collect_graph_data (table_session [paper_author_keyword] c r) None None None 2 =
     Inr ([paper_node paper_author_keyword, author_node (researcher ''a1'' ''Ada'')],
          [\<lparr> source = ''author_a1'', target = ''paper_p1'', edge_type = AUTHORED_BY,
              weight = 1, edge_properties = None \<rparr>,
           \<lparr> source = ''paper_p1'', target = ''keyword_k1'', edge_type = RELATED_TO,
              weight = 1 / 2, edge_properties = None \<rparr>])"
  by (simp add: collect_graph_data_def collect_query_def table_session_def table_execute_def
      collect_from_def paper_author_keyword_def paper_row_def researcher_def keyword_row_def
      Let_def paper_node_def author_node_def)

lemma missing_author_keyword:
  "first_missing_endpoint
     (node_ids_of [paper_node paper_author_keyword, author_node (researcher ''a1'' ''Ada'')])
     [\<lparr> source = ''author_a1'', target = ''paper_p1'', edge_type = AUTHORED_BY,
              weight = 1, edge_properties = None \<rparr>,
      \<lparr> source = ''paper_p1'', target = ''keyword_k1'', edge_type = RELATED_TO,
              weight = 1 / 2, edge_properties = None \<rparr>] = Some ''keyword_k1''"
  by (simp add: node_ids_of_def paper_node_def author_node_def paper_author_keyword_def
      paper_row_def researcher_def)

text \<open>
  C1. One paper with one author and one keyword and a budget of 2: the keyword's node is
  not admitted, yet \<open>_collect_graph_data\<close> returns the \<open>related_to\<close> edge to
  \<open>keyword_k1\<close>, an id that is not in the node list. Nothing removes the edge afterwards:
  the layout looks the endpoint up and the build ends with \<open>KeyError\<close>.
\<close>

theorem collect_keeps_edge_without_node:
  "\<exists>nodes edges.
     collect_graph_data (table_session [paper_author_keyword] c r) None None None 2 = Inr (nodes, edges) \<and>
     map node_id nodes = [''paper_p1'', ''author_a1''] \<and>
     map endpoints edges =
       [(''author_a1'', ''paper_p1'', AUTHORED_BY), (''paper_p1'', ''keyword_k1'', RELATED_TO)] \<and>
     ''keyword_k1'' \<notin> set (map node_id nodes) \<and>
     build_research_knowledge_graph (table_session [paper_author_keyword] c (Inr ())) nx rt
       user_id None None None 2 = Inl (KeyError ''keyword_k1'')"
proof (intro exI conjI)
  show "collect_graph_data (table_session [paper_author_keyword] c r) None None None 2 =
     Inr ([paper_node paper_author_keyword, author_node (researcher ''a1'' ''Ada'')],
          [\<lparr> source = ''author_a1'', target = ''paper_p1'', edge_type = AUTHORED_BY,
              weight = 1, edge_properties = None \<rparr>,
           \<lparr> source = ''paper_p1'', target = ''keyword_k1'', edge_type = RELATED_TO,
              weight = 1 / 2, edge_properties = None \<rparr>])"
    by (rule collect_author_keyword)
  show "build_research_knowledge_graph (table_session [paper_author_keyword] c (Inr ())) nx rt
       user_id None None None 2 = Inl (KeyError ''keyword_k1'')"
    using build_body_missing [OF collect_author_keyword missing_author_keyword]
    by (simp add: build_research_knowledge_graph_def table_session_def)
qed (simp_all add: endpoints_def paper_node_def author_node_def paper_author_keyword_def
    paper_row_def researcher_def)

section \<open>A failing save\<close>

lemma build_of_body:
  "build_research_knowledge_graph sess nx rt user_id papers af kf max_nodes = Inr gd
     \<longleftrightarrow> build_body sess nx rt user_id papers af kf max_nodes = Inr gd \<and> close sess = Inr ()"
  by (auto simp: build_research_knowledge_graph_def split: sum.splits)



section \<open>Positions and importance after assembly\<close>

lemma serialized_update_node:
  "node_has_position (serialize_node (update_node layout scores clusters n))"
  "node_has_importance (serialize_node (update_node layout scores clusters n))"
  by (simp_all add: node_has_position_def node_has_importance_def serialize_node_def
      update_node_def vec3_json_def)

lemma save_keeps_nodes:
  "save_knowledge_graph sess rt gd user_id = Inr gd' \<Longrightarrow> gd_nodes gd' = gd_nodes gd"
  by (auto simp: save_knowledge_graph_def split: sum.splits)

lemma build_body_assembled:
  assumes "collect_graph_data sess papers af kf max_nodes = Inr (nodes, edges)"
    and "first_missing_endpoint (node_ids_of nodes) edges = None"
  shows "\<exists>gd0 layout scores clusters.
           build_body sess nx rt user_id papers af kf max_nodes =
             save_knowledge_graph sess rt gd0 user_id \<and>
           gd_id gd0 = provisional_id rt user_id \<and>
           gd_nodes gd0 = map (\<lambda>n. serialize_node (update_node layout scores clusters n)) nodes"
proof -
  from build_body_ok [OF assms, of rt nx user_id] obtain layout where
    b: "build_body sess nx rt user_id papers af kf max_nodes =
       save_knowledge_graph sess rt
         (assemble rt user_id
            (map (update_node layout
                    (calculate_node_importance nx (create_networkx_graph nodes edges))
                    (detect_research_clusters nx (create_networkx_graph nodes edges) nodes)) nodes)
            edges
            (detect_research_clusters nx (create_networkx_graph nodes edges) nodes)
            (analyze_graph_structure nx (create_networkx_graph nodes edges)))
         user_id"
    by blast
  show ?thesis
    by (rule exI, rule exI [of _ layout],
        rule exI [of _ "calculate_node_importance nx (create_networkx_graph nodes edges)"],
        rule exI [of _ "detect_research_clusters nx (create_networkx_graph nodes edges) nodes"],
        intro conjI, rule b) (simp_all add: assemble_def)
qed

lemma build_nodes:
  assumes "build_research_knowledge_graph sess nx rt user_id papers af kf max_nodes = Inr gd"
  shows "\<exists>nodes layout scores clusters.
           gd_nodes gd = map (\<lambda>n. serialize_node (update_node layout scores clusters n)) nodes"
proof -
  from assms have b: "build_body sess nx rt user_id papers af kf max_nodes = Inr gd"
    by (simp add: build_of_body)
  then obtain nodes edges where
    c: "collect_graph_data sess papers af kf max_nodes = Inr (nodes, edges)"
    by (cases "collect_graph_data sess papers af kf max_nodes")
       (auto simp: build_body_def bind_err_def)
  from build_body_no_missing_endpoint [OF b c] have
    m: "first_missing_endpoint (node_ids_of nodes) edges = None" .
  from build_body_assembled [OF c m, of nx rt user_id] obtain gd0 layout scores clusters where
    g: "build_body sess nx rt user_id papers af kf max_nodes =
             save_knowledge_graph sess rt gd0 user_id"
       "gd_nodes gd0 = map (\<lambda>n. serialize_node (update_node layout scores clusters n)) nodes"
    by blast
  from g(1) b have "save_knowledge_graph sess rt gd0 user_id = Inr gd" by simp
  from save_keeps_nodes [OF this] g(2) show ?thesis by auto
qed

text \<open>
  C10. In every graph the build returns, each serialised node carries a position dict
  (never \<open>null\<close>) and a numeric importance. The assembly loop sets both on every node: a
  node the layout has no entry for gets the origin, a node the score mapping has no
  entry for gets 0.
\<close>

theorem built_nodes_have_position_and_importance:
  assumes "build_research_knowledge_graph sess nx rt user_id papers af kf max_nodes = Inr gd"
  shows "list_all (\<lambda>nd. node_has_position nd \<and> node_has_importance nd) (gd_nodes gd) \<and>
         (layout (node_id n) = None \<longrightarrow>
            position (update_node layout scores clusters n) = Some origin) \<and>
         (map_of scores (node_id n) = None \<longrightarrow>
            importance_score (update_node layout scores clusters n) = 0)"
proof -
  from build_nodes [OF assms] obtain nodes l s c where
    "gd_nodes gd = map (\<lambda>n. serialize_node (update_node l s c n)) nodes" by blast
  then have "list_all (\<lambda>nd. node_has_position nd \<and> node_has_importance nd) (gd_nodes gd)"
    by (simp add: list_all_iff serialized_update_node)
  then show ?thesis by (simp add: update_node_def score_get_def)
qed

lemma collect_two_authors_roomy:
  "collect_graph_data (table_session [paper_two_authors] c r) None None None 10 =
     Inr ([paper_node paper_two_authors, author_node (researcher ''a1'' ''Ada''),
           author_node (researcher ''a2'' ''Bob'')],
          [\<lparr> source = ''author_a1'', target = ''paper_p1'', edge_type = AUTHORED_BY,
              weight = 1, edge_properties = None \<rparr>,
           \<lparr> source = ''author_a2'', target = ''paper_p1'', edge_type = AUTHORED_BY,
              weight = 1, edge_properties = None \<rparr>])"
  by (simp add: collect_graph_data_def collect_query_def table_session_def table_execute_def
      collect_from_def paper_two_authors_def paper_row_def researcher_def Let_def
      paper_node_def author_node_def)

lemma build_stored:
  assumes "collect_graph_data sess papers af kf max_nodes = Inr (nodes, edges)"
    and "first_missing_endpoint (node_ids_of nodes) edges = None"
    and "\<And>row. commit sess row = Inr kid"
    and "close sess = Inr ()"
  shows "\<exists>gd. build_research_knowledge_graph sess nx rt user_id papers af kf max_nodes = Inr gd \<and>
           gd_id gd = kid \<and> length (gd_nodes gd) = length nodes"
proof -
  from build_body_assembled [OF assms(1,2), of nx rt user_id] obtain gd0 layout scores clusters where
    g: "build_body sess nx rt user_id papers af kf max_nodes =
             save_knowledge_graph sess rt gd0 user_id"
       "gd_nodes gd0 = map (\<lambda>n. serialize_node (update_node layout scores clusters n)) nodes"
    by blast
  from assms(3) have "save_knowledge_graph sess rt gd0 user_id = Inr (gd0 \<lparr> gd_id := kid \<rparr>)"
    by (simp add: save_knowledge_graph_def)
  with g assms(4) show ?thesis by (simp add: build_of_body)
qed

theorem built_nodes_have_position_and_importance_witness:
  "\<exists>gd. build_research_knowledge_graph (table_session [paper_two_authors] storing_commit (Inr ()))
           example_nx example_runtime ''u1'' None None None 10 = Inr gd \<and>
        length (gd_nodes gd) = 3 \<and>
        list_all (\<lambda>nd. node_has_position nd \<and> node_has_importance nd) (gd_nodes gd) \<and>
        position (update_node Map.empty [] [] (plain_node ''P1'' PAPER)) = Some origin \<and>
        importance_score (update_node Map.empty [] [] (plain_node ''P1'' PAPER)) = 0"
proof -
  have m: "first_missing_endpoint
      (node_ids_of [paper_node paper_two_authors, author_node (researcher ''a1'' ''Ada''),
           author_node (researcher ''a2'' ''Bob'')])
      [\<lparr> source = ''author_a1'', target = ''paper_p1'', edge_type = AUTHORED_BY,
              weight = 1, edge_properties = None \<rparr>,
           \<lparr> source = ''author_a2'', target = ''paper_p1'', edge_type = AUTHORED_BY,
              weight = 1, edge_properties = None \<rparr>] = None"
    by (simp add: node_ids_of_def paper_node_def author_node_def paper_two_authors_def
        paper_row_def researcher_def)
  have c: "\<And>row. commit (table_session [paper_two_authors] storing_commit (Inr ())) row
      = Inr ''7d4f2c1e-0000-4000-8000-000000000001''"
    by (simp add: table_session_def storing_commit_def)
  have cl: "close (table_session [paper_two_authors] storing_commit (Inr ())) = Inr ()"
    by (simp add: table_session_def)
  from build_stored [OF collect_two_authors_roomy m c cl, of example_nx example_runtime "''u1''"]
  obtain gd where g: "build_research_knowledge_graph
      (table_session [paper_two_authors] storing_commit (Inr ()))
      example_nx example_runtime ''u1'' None None None 10 = Inr gd" "length (gd_nodes gd) = 3"
    by auto
  from built_nodes_have_position_and_importance [OF g(1), of Map.empty "plain_node ''P1'' PAPER" "[]" "[]"] g
  show ?thesis by auto
qed

section \<open>The id of the returned graph\<close>









section \<open>Layouts of no nodes\<close>

lemma hierarchical_layout_no_nodes: "hierarchical_layout [] edges = Inr Map.empty"
  by (simp add: hierarchical_layout_def node_groups_def)

lemma circular_layout_no_nodes: "circular_layout [] edges = Inr Map.empty"
  by (simp add: circular_layout_def)

lemma spring_layout_no_nodes:
  "spring_layout nx rt [] edges =
     bind_err (nx_spring_layout nx (spring_graph [] edges) 3 50) (\<lambda>pos_2d. Inr Map.empty)"
  by (simp add: spring_layout_def)

lemma force_directed_layout_nothing: "force_directed_layout rt [] [] = Inr Map.empty"
proof -
  have "simulate n [] [] t Map.empty = Inr Map.empty" for n t
    by (induction n arbitrary: t) (simp_all add: layout_step_def bind_err_def)
  then show ?thesis by (simp add: force_directed_layout_def del: simulate.simps)
qed

lemma force_directed_layout_no_nodes:
  "force_directed_layout rt [] (edge # rest) = Inl (KeyError (source edge))"
  by (rule force_directed_layout_missing) (simp add: node_ids_of_def)

text \<open>
  C9, as the code has it. With no nodes, the hierarchical and the circular layout return
  the empty mapping whatever the edges, and the spring layout does once the library's
  planar layout has returned. The force-directed layout returns the empty mapping when
  there are no edges either, and raises \<open>KeyError\<close> for the source of the first edge
  otherwise. So with no nodes and no edges every algorithm name, known or not, gives the
  empty mapping.
\<close>

theorem layouts_without_nodes:
  "hierarchical_layout [] edges = Inr Map.empty \<and>
   circular_layout [] edges = Inr Map.empty \<and>
   spring_layout nx rt [] edges =
     bind_err (nx_spring_layout nx (spring_graph [] edges) 3 50) (\<lambda>pos_2d. Inr Map.empty) \<and>
   force_directed_layout rt [] [] = Inr Map.empty \<and>
   force_directed_layout rt [] (edge # rest) = Inl (KeyError (source edge)) \<and>
   generate_3d_layout nx rt [] [] algorithm =
     (if algorithm = ''spring''
      then bind_err (nx_spring_layout nx empty_graph 3 50) (\<lambda>pos_2d. Inr Map.empty)
      else Inr Map.empty)"
  by (simp add: hierarchical_layout_no_nodes circular_layout_no_nodes spring_layout_no_nodes
      force_directed_layout_nothing force_directed_layout_no_nodes generate_3d_layout_def
      spring_graph_def)

theorem layouts_without_nodes_witness:
  "hierarchical_layout [] two_citations = Inr Map.empty \<and>
   circular_layout [] two_citations = Inr Map.empty \<and>
   spring_layout example_nx example_runtime [] two_citations = Inr Map.empty \<and>
   force_directed_layout example_runtime [] [] = Inr Map.empty \<and>
   force_directed_layout example_runtime [] two_citations = Inl (KeyError ''P1'') \<and>
   generate_3d_layout example_nx example_runtime [] [] ''radial'' = Inr Map.empty"
  using layouts_without_nodes [of two_citations example_nx example_runtime
      "plain_edge ''P1'' ''P2'' CITES" "[plain_edge ''P2'' ''P3'' CITES]" "''radial''"]
  by (simp add: two_citations_def bind_err_def example_nx_def plain_edge_def)

text \<open>
  C9 as stated does not hold for an edge list that is not empty: with no nodes and one edge the
  force-directed layout, selected by its name, raises instead of returning a mapping.
\<close>

theorem force_directed_layout_raises_without_nodes:
  "force_directed_layout example_runtime [] [plain_edge ''P1'' ''P2'' CITES]
     = Inl (KeyError ''P1'') \<and>
   generate_3d_layout example_nx example_runtime [] [plain_edge ''P1'' ''P2'' CITES]
     ''force_directed'' = Inl (KeyError ''P1'')"
  using force_directed_layout_no_nodes [of example_runtime "plain_edge ''P1'' ''P2'' CITES" "[]"]
  by (simp add: generate_3d_layout_def plain_edge_def)

section \<open>Structural analysis: results and errors\<close>

lemma three_papers_graph:
  "create_networkx_graph three_papers two_citations =
     \<lparr> g_nodes = [(''P1'', node_attrs (plain_node ''P1'' PAPER)),
                  (''P2'', node_attrs (plain_node ''P2'' PAPER)),
                  (''P3'', node_attrs (plain_node ''P3'' PAPER))],
       g_edges = [((''P1'', ''P2''), edge_attrs (plain_edge ''P1'' ''P2'' CITES)),
                  ((''P2'', ''P3''), edge_attrs (plain_edge ''P2'' ''P3'' CITES))] \<rparr>"
  by (simp add: create_networkx_graph_def three_papers_def two_citations_def add_node_def
      add_edge_def empty_graph_def plain_node_def plain_edge_def dict_update_def same_pair_def
      node_attrs_def edge_attrs_def Let_def)

lemma three_papers_counts:
  "number_of_nodes (create_networkx_graph three_papers two_citations) = 3"
  "number_of_edges (create_networkx_graph three_papers two_citations) = 2"
  by (simp_all add: three_papers_graph number_of_nodes_def number_of_edges_def)

lemma three_papers_connected:
  "is_connected (create_networkx_graph three_papers two_citations) = Inr True"
  by (simp add: three_papers_graph is_connected_def graph_nodes_def component_def
      number_of_nodes_def neighbors_def eval_nat_numeral)

lemma three_papers_components:
  "number_connected_components (create_networkx_graph three_papers two_citations) = 1"
  by (simp add: three_papers_graph number_connected_components_def graph_nodes_def component_def
      number_of_nodes_def neighbors_def eval_nat_numeral)

lemma three_papers_diameter:
  "diameter (create_networkx_graph three_papers two_citations) = Inr 2"
  by (simp add: diameter_def three_papers_connected)
     (simp add: three_papers_graph graph_nodes_def eccentricity_def
      number_of_nodes_def neighbors_def eval_nat_numeral)

lemma betweenness_sample_too_large:
  "number_of_nodes G < k \<Longrightarrow>
     betweenness_centrality nx G (Some k) =
       Inl (ValueError ''Sample larger than population or is negative'')"
  by (simp add: betweenness_centrality_def)

lemma analysis_centrality_small:
  "number_of_nodes G < 100 \<Longrightarrow> \<exists>e. analysis_centrality nx G = Inl e"
  by (cases "nx_degree_centrality nx G")
     (simp_all add: analysis_centrality_def bind_err_def betweenness_sample_too_large)

lemma analysis_try_small:
  assumes "number_of_nodes G < 100"
  shows "\<exists>e. analysis_try nx G = Inl e"
proof -
  from analysis_centrality_small [OF assms] obtain e where
    "analysis_centrality nx G = Inl e" by blast
  then show ?thesis
    by (auto simp: analysis_try_def bind_err_def split: sum.splits)
qed

lemma analyze_error:
  "analysis_try nx G = Inl e \<Longrightarrow>
     analyze_graph_structure nx G = [(''error'', JStr (str_error e))]"
  by (simp add: analyze_graph_structure_def)

text \<open>
  C8. The graph of three papers with the citations P1 to P2 and P2 to P3 has three nodes
  and two edges, is connected, has one component and diameter 2. The analysis does not
  report them: the graph has at most 500 nodes, so betweenness is asked for with 100
  pivots, more than there are nodes; drawing them raises, and whatever the library's
  other routines answer the result is the error dict alone.
\<close>

theorem analysis_of_three_papers:
  "number_of_nodes (create_networkx_graph three_papers two_citations) = 3 \<and>
   number_of_edges (create_networkx_graph three_papers two_citations) = 2 \<and>
   is_connected (create_networkx_graph three_papers two_citations) = Inr True \<and>
   number_connected_components (create_networkx_graph three_papers two_citations) = 1 \<and>
   diameter (create_networkx_graph three_papers two_citations) = Inr 2 \<and>
   (\<exists>e. analyze_graph_structure nx (create_networkx_graph three_papers two_citations)
           = [(''error'', JStr (str_error e))]) \<and>
   map_of (analyze_graph_structure nx (create_networkx_graph three_papers two_citations))
     ''node_count'' = None"
proof -
  have "number_of_nodes (create_networkx_graph three_papers two_citations) < 100"
    by (simp add: three_papers_counts)
  from analysis_try_small [OF this, of nx] obtain e where
    "analysis_try nx (create_networkx_graph three_papers two_citations) = Inl e" by blast
  from analyze_error [OF this] show ?thesis
    by (auto simp: three_papers_counts three_papers_connected three_papers_components
        three_papers_diameter)
qed

lemma analysis_try_example_three:
  "analysis_try example_nx (create_networkx_graph three_papers two_citations) =
     Inl (ValueError ''Sample larger than population or is negative'')"
  by (simp add: analysis_try_def bind_err_def example_nx_def three_papers_connected
      analysis_paths_def three_papers_diameter analysis_centrality_def three_papers_counts
      betweenness_sample_too_large)

lemma analysis_centrality_raises:
  assumes "number_of_nodes graph \<le> 500"
    and "isl (nx_degree_centrality nx graph) \<or>
          isl (betweenness_centrality nx graph (Some 100)) \<or>
          isl (nx_closeness_centrality nx graph) \<or>
          isl (nx_eigenvector_centrality nx graph 100)"
  shows "isl (analysis_centrality nx graph)"
  using assms
  by (auto simp: analysis_centrality_def bind_err_def isl_def split: sum.splits)

lemma analysis_paths_raises:
  assumes "is_connected graph = Inr True"
    and "isl (diameter graph) \<or> isl (nx_average_shortest_path_length nx graph)"
  shows "isl (analysis_paths nx graph)"
  using assms
  by (auto simp: analysis_paths_def bind_err_def isl_def split: sum.splits)

lemma analysis_try_raises_iff:
  "isl (analysis_try nx graph) \<longleftrightarrow> metric_raises nx graph"
proof
  assume "metric_raises nx graph"
  then consider "isl (nx_density nx graph)" | "isl (is_connected graph)"
    | "isl (nx_average_clustering nx graph)" | "isl (analysis_paths nx graph)"
    | "isl (analysis_centrality nx graph)"
    unfolding metric_raises_def
    using analysis_paths_raises analysis_centrality_raises by blast
  then show "isl (analysis_try nx graph)"
    by cases (auto simp: analysis_try_def bind_err_def isl_def split: sum.splits)
next
  assume a: "isl (analysis_try nx graph)"
  show "metric_raises nx graph"
  proof (rule ccontr)
    assume n: "\<not> metric_raises nx graph"
    then obtain d c cl where o: "nx_density nx graph = Inr d" "is_connected graph = Inr c"
      "nx_average_clustering nx graph = Inr cl"
      by (auto simp: metric_raises_def isl_def) (metis sum.exhaust)+
    from n o have p: "\<not> isl (analysis_paths nx graph)"
      by (cases c) (auto simp: metric_raises_def analysis_paths_def bind_err_def isl_def
          split: sum.splits)
    from n have q: "\<not> isl (analysis_centrality nx graph)"
      by (auto simp: metric_raises_def analysis_centrality_def bind_err_def isl_def
          split: sum.splits)
    from a o p q show False
      by (auto simp: analysis_try_def bind_err_def isl_def split: sum.splits)
  qed
qed

lemma metric_raises_error_only:
  assumes "metric_raises nx graph"
  shows "\<exists>e. analysis_try nx graph = Inl e \<and>
           analyze_graph_structure nx graph = [(''error'', JStr (str_error e))]"
proof -
  from assms have "isl (analysis_try nx graph)" by (simp add: analysis_try_raises_iff)
  then obtain e where "analysis_try nx graph = Inl e" by (auto simp: isl_def)
  with analyze_error [OF this] show ?thesis by blast
qed

lemma no_metric_raises_complete:
  assumes "\<not> metric_raises nx graph"
  shows "map fst (analyze_graph_structure nx graph) =
     [''node_count'', ''edge_count'', ''density'', ''is_connected'', ''connected_components'',
      ''average_clustering'', ''diameter'', ''average_path_length'', ''centrality_measures'']"
proof -
  from assms have "\<not> isl (analysis_try nx graph)" by (simp add: analysis_try_raises_iff)
  then obtain a where a: "analysis_try nx graph = Inr a" by (cases "analysis_try nx graph") auto
  then have "map fst a = [''node_count'', ''edge_count'', ''density'', ''is_connected'',
      ''connected_components'', ''average_clustering'', ''diameter'', ''average_path_length'',
      ''centrality_measures'']"
    by (auto simp: analysis_try_def bind_err_def split: sum.splits)
  with a show ?thesis by (simp add: analyze_graph_structure_def)
qed

text \<open>
  C7, as the code has it. When a metric computation raises, the exception is caught and
  not raised to the caller; the result is then the dict with the single key \<open>error\<close>, and
  the counts computed before the exception are not in it.
\<close>

theorem analysis_error_replaces_results:
  assumes "metric_raises nx graph"
  shows "(\<exists>e. analyze_graph_structure nx graph = [(''error'', JStr (str_error e))]) \<and>
         map_of (analyze_graph_structure nx graph) ''node_count'' = None \<and>
         map_of (analyze_graph_structure nx graph) ''edge_count'' = None"
  using metric_raises_error_only [OF assms] by auto

lemma metric_raises_example_three:
  "metric_raises example_nx (create_networkx_graph three_papers two_citations)"
  by (simp add: metric_raises_def three_papers_counts betweenness_sample_too_large)

theorem analysis_error_replaces_results_witness:
  "metric_raises example_nx (create_networkx_graph three_papers two_citations) \<and>
   analyze_graph_structure example_nx (create_networkx_graph three_papers two_citations) =
     [(''error'', JStr ''Sample larger than population or is negative'')] \<and>
   map_of (analyze_graph_structure example_nx (create_networkx_graph three_papers two_citations))
     ''node_count'' = None"
  using analysis_error_replaces_results [OF metric_raises_example_three]
    metric_raises_example_three analyze_error [OF analysis_try_example_three]
  by simp

lemma empty_graph_is_built: "create_networkx_graph [] [] = empty_graph"
  by (simp add: create_networkx_graph_def)

text \<open>
  C7 as stated does not hold on the graph of an empty build: the node count, the edge count and the
  density are computed, the connectivity test raises on the graph with no node, and the
  result holds the error and no count.
\<close>

theorem analysis_of_empty_graph_loses_counts:
  "number_of_nodes (create_networkx_graph [] []) = 0 \<and>
   number_of_edges (create_networkx_graph [] []) = 0 \<and>
   nx_density example_nx (create_networkx_graph [] []) = Inr 0 \<and>
   is_connected (create_networkx_graph [] []) =
     Inl (NetworkXPointlessConcept ''Connectivity is undefined for the null graph.'') \<and>
   analyze_graph_structure example_nx (create_networkx_graph [] []) =
     [(''error'', JStr ''Connectivity is undefined for the null graph.'')] \<and>
   map_of (analyze_graph_structure example_nx (create_networkx_graph [] [])) ''node_count'' = None"
  by (simp add: empty_graph_is_built empty_graph_def number_of_nodes_def number_of_edges_def
      example_nx_def is_connected_def graph_nodes_def analyze_graph_structure_def analysis_try_def
      bind_err_def)

section \<open>Clusters\<close>

lemma make_cluster_fields:
  "cluster_nodes (make_cluster i c t) = c" "cluster_size (make_cluster i c t) = length c"
  by (simp_all add: make_cluster_def)

lemma clusters_loop_members:
  assumes "clusters_loop i communities nodes acc = Inr clusters"
    and "cl \<in> set clusters"
  shows "cl \<in> set acc \<or>
         (\<exists>c \<in> set communities. 2 \<le> length c \<and> cluster_nodes cl = c \<and> cluster_size cl = length c)"
  using assms
proof (induction communities arbitrary: i acc)
  case Nil
  then show ?case by simp
next
  case (Cons c cs)
  show ?case
  proof (cases "length c < 2")
    case True
    with Cons.prems have "clusters_loop (Suc i) cs nodes acc = Inr clusters" by simp
    from Cons.IH [OF this Cons.prems(2)] show ?thesis by auto
  next
    case False
    with Cons.prems(1) obtain t where
      "clusters_loop (Suc i) cs nodes (acc @ [make_cluster i c t]) = Inr clusters"
      by (auto simp: Let_def bind_err_def split: sum.splits)
    from Cons.IH [OF this Cons.prems(2)] False show ?thesis
      by (auto simp: make_cluster_fields)
  qed
qed

lemma detect_members:
  assumes "cl \<in> set (detect_research_clusters nx graph nodes)"
  shows "\<exists>communities. nx_louvain_communities nx graph = Inr communities \<and>
     (\<exists>c \<in> set communities. 2 \<le> length c \<and> cluster_nodes cl = c \<and> cluster_size cl = length c)"
proof -
  show ?thesis
  proof (cases "nx_louvain_communities nx graph")
    case (Inl e)
    with assms show ?thesis by (simp add: detect_research_clusters_def bind_err_def)
  next
    case (Inr communities)
    show ?thesis
    proof (cases "clusters_loop 0 communities nodes []")
      case (Inl e)
      with Inr assms show ?thesis by (simp add: detect_research_clusters_def bind_err_def)
    next
      case c: (Inr clusters)
      with Inr assms have "cl \<in> set clusters"
        by (simp add: detect_research_clusters_def bind_err_def)
      from clusters_loop_members [OF c this] Inr show ?thesis by simp
    qed
  qed
qed

text \<open>
  C6. The community detection is the library's; its answer is a list of communities,
  each a set of nodes of the graph (here a list without repetition). Whatever the
  answer, every cluster returned comes from a community of at least two members: its
  size is the number of its members and is at least 2, and its members are nodes of the
  graph. Smaller communities give no cluster.
\<close>

theorem clusters_have_two_members_of_the_graph:
  assumes "\<And>communities. nx_louvain_communities nx graph = Inr communities \<Longrightarrow>
             \<forall>c \<in> set communities. distinct c \<and> set c \<subseteq> set (graph_nodes graph)"
  shows "\<forall>cl \<in> set (detect_research_clusters nx graph nodes).
           2 \<le> cluster_size cl \<and> cluster_size cl = card (set (cluster_nodes cl)) \<and>
           set (cluster_nodes cl) \<subseteq> set (graph_nodes graph)"
proof
  fix cl
  assume "cl \<in> set (detect_research_clusters nx graph nodes)"
  from detect_members [OF this] obtain communities c where
    l: "nx_louvain_communities nx graph = Inr communities" and c: "c \<in> set communities"
    and p: "2 \<le> length c" "cluster_nodes cl = c" "cluster_size cl = length c"
    by blast
  from assms [OF l] c have "distinct c" "set c \<subseteq> set (graph_nodes graph)" by auto
  with p show "2 \<le> cluster_size cl \<and> cluster_size cl = card (set (cluster_nodes cl)) \<and>
           set (cluster_nodes cl) \<subseteq> set (graph_nodes graph)"
    by (simp add: distinct_card)
qed

lemma detect_pair_and_single:
  "map cluster_nodes (detect_research_clusters pair_and_single
      (create_networkx_graph three_papers two_citations) three_papers) = [[''P1'', ''P2'']]"
  by (simp add: detect_research_clusters_def pair_and_single_def bind_err_def Let_def
      three_papers_def plain_node_def most_common_def make_cluster_fields)

theorem clusters_have_two_members_of_the_graph_witness:
  "map cluster_nodes (detect_research_clusters pair_and_single
      (create_networkx_graph three_papers two_citations) three_papers) = [[''P1'', ''P2'']] \<and>
   list_all (\<lambda>cl. 2 \<le> cluster_size cl \<and> cluster_size cl = card (set (cluster_nodes cl)) \<and>
               set (cluster_nodes cl) \<subseteq> set (graph_nodes (create_networkx_graph three_papers two_citations)))
     (detect_research_clusters pair_and_single
        (create_networkx_graph three_papers two_citations) three_papers)"
proof -
  have h: "\<forall>c \<in> set communities. distinct c \<and>
            set c \<subseteq> set (graph_nodes (create_networkx_graph three_papers two_citations))"
    if "nx_louvain_communities pair_and_single
            (create_networkx_graph three_papers two_citations) = Inr communities"
    for communities
    using that by (auto simp: pair_and_single_def three_papers_graph graph_nodes_def)
  have "\<forall>cl \<in> set (detect_research_clusters pair_and_single
            (create_networkx_graph three_papers two_citations) three_papers).
          2 \<le> cluster_size cl \<and> cluster_size cl = card (set (cluster_nodes cl)) \<and>
          set (cluster_nodes cl) \<subseteq> set (graph_nodes (create_networkx_graph three_papers two_citations))"
    by (rule clusters_have_two_members_of_the_graph) (rule h)
  with detect_pair_and_single show ?thesis unfolding list_all_iff by blast
qed

section \<open>Importance scores\<close>

lemma importance_try_formula:
  assumes "nx_degree_centrality nx graph = Inr deg"
    and "betweenness_centrality nx graph (if number_of_nodes graph > 500 then Some 100 else None)
           = Inr bet"
  shows "calculate_node_importance nx graph =
           map (\<lambda>node. (node, 6 / 10 * score_get deg node 0 + 4 / 10 * score_get bet node 0))
             (graph_nodes graph)"
  using assms
  by (cases "number_of_nodes graph > 500")
     (simp_all add: calculate_node_importance_def importance_try_def bind_err_def)

lemma map_of_scores:
  "node \<in> set xs \<Longrightarrow> map_of (map (\<lambda>n. (n, f n)) xs) node = Some (f node)"
  by (induction xs) auto

lemma collect_paper_citing_itself:
  "collect_from [paper_citing_itself] 10 =
     ([paper_node paper_citing_itself, author_node (researcher ''a1'' ''Ada'')],
      [\<lparr> source = ''author_a1'', target = ''paper_p1'', edge_type = AUTHORED_BY,
          weight = 1, edge_properties = None \<rparr>,
       citation_edge ''paper_p1''
         \<lparr> cited_paper_id = ''p1'', citation_context = None, citation_type = None \<rparr>])"
  by (simp add: collect_from_def paper_citing_itself_def paper_row_def researcher_def Let_def
      paper_node_def author_node_def)

lemma session_paper_citing_itself:
  "collect_graph_data (table_session [paper_citing_itself] c r) None None None 10 =
     Inr (collect_from [paper_citing_itself] 10)"
  by (simp add: collect_graph_data_def collect_query_def table_session_def table_execute_def)

lemma self_citation_graph_edges:
  "graph_nodes self_citation_graph = [''paper_p1'', ''author_a1'']"
  "map fst (g_edges self_citation_graph) =
     [(''author_a1'', ''paper_p1''), (''paper_p1'', ''paper_p1'')]"
  unfolding self_citation_graph_def collect_paper_citing_itself
  by (simp_all add: create_networkx_graph_def
      add_node_def add_edge_def empty_graph_def dict_update_def same_pair_def graph_nodes_def
      paper_node_def author_node_def citation_edge_def paper_citing_itself_def paper_row_def
      researcher_def Let_def)

lemma neighbors_fst:
  "neighbors G v =
     concat (map (\<lambda>(a, b). (if a = v then [b] else []) @ (if b = v then [a] else []))
       (map fst (g_edges G)))"
  by (simp add: neighbors_def comp_def case_prod_unfold)

lemma self_citation_degree:
  "degree_centrality self_citation_graph = [(''paper_p1'', 3), (''author_a1'', 1)]"
  by (simp add: degree_centrality_def degree_def neighbors_fst self_citation_graph_edges
      number_of_nodes_def graph_nodes_def [symmetric] length_map [symmetric, of _ fst]
      del: length_map)

lemma self_citation_library:
  "nx_degree_centrality degree_nx self_citation_graph = Inr [(''paper_p1'', 3), (''author_a1'', 1)]"
  "betweenness_centrality degree_nx self_citation_graph
     (if number_of_nodes self_citation_graph > 500 then Some 100 else None)
     = Inr [(''paper_p1'', 0), (''author_a1'', 0)]"
proof -
  show "nx_degree_centrality degree_nx self_citation_graph
      = Inr [(''paper_p1'', 3), (''author_a1'', 1)]"
    by (simp add: degree_nx_def self_citation_degree)
  have "number_of_nodes self_citation_graph = 2"
    using self_citation_graph_edges(1) by (simp add: number_of_nodes_def graph_nodes_def)
       (metis length_map list.size(3,4) One_nat_def Suc_1 add.commute plus_1_eq_Suc)
  then show "betweenness_centrality degree_nx self_citation_graph
     (if number_of_nodes self_citation_graph > 500 then Some 100 else None)
     = Inr [(''paper_p1'', 0), (''author_a1'', 0)]"
    by (simp add: betweenness_centrality_def degree_nx_def example_nx_def constant_scores_def
        self_citation_graph_edges)
qed

lemma self_citation_importance:
  "calculate_node_importance degree_nx self_citation_graph =
     [(''paper_p1'', 9 / 5), (''author_a1'', 3 / 5)]"
  using importance_try_formula [OF self_citation_library]
  by (simp add: self_citation_graph_edges score_get_def)

text \<open>
  C5. When the library's degree centrality and betweenness centrality return, the scorer returns
  one entry for every node of the graph, in the order of the nodes, and the score of a node is
  0.6 times its degree centrality plus 0.4 times its betweenness centrality (a node missing from
  a centrality mapping counts 0 there). Betweenness is asked for without sampling when the graph
  has at most 500 nodes and with \<open>k=100\<close> above that. The score of a node lies in [0,1]
  whenever both of its centrality values do.
\<close>

theorem importance_is_weighted_sum:
  assumes "nx_degree_centrality nx graph = Inr deg"
    and "betweenness_centrality nx graph (if number_of_nodes graph > 500 then Some 100 else None)
           = Inr bet"
  shows "calculate_node_importance nx graph =
           map (\<lambda>n. (n, 6 / 10 * score_get deg n 0 + 4 / 10 * score_get bet n 0))
             (graph_nodes graph) \<and>
         (node \<in> set (graph_nodes graph) \<longrightarrow>
            map_of (calculate_node_importance nx graph) node =
              Some (6 / 10 * score_get deg node 0 + 4 / 10 * score_get bet node 0)) \<and>
         (node \<in> set (graph_nodes graph) \<and>
          0 \<le> score_get deg node 0 \<and> score_get deg node 0 \<le> 1 \<and>
          0 \<le> score_get bet node 0 \<and> score_get bet node 0 \<le> 1 \<longrightarrow>
            (\<exists>s. map_of (calculate_node_importance nx graph) node = Some s \<and> 0 \<le> s \<and> s \<le> 1))"
proof (intro conjI impI)
  show f: "calculate_node_importance nx graph =
           map (\<lambda>n. (n, 6 / 10 * score_get deg n 0 + 4 / 10 * score_get bet n 0))
             (graph_nodes graph)"
    using assms by (rule importance_try_formula)
  show m: "map_of (calculate_node_importance nx graph) node =
              Some (6 / 10 * score_get deg node 0 + 4 / 10 * score_get bet node 0)"
    if "node \<in> set (graph_nodes graph)"
    using that by (simp add: f map_of_scores)
  show "\<exists>s. map_of (calculate_node_importance nx graph) node = Some s \<and> 0 \<le> s \<and> s \<le> 1"
    if h: "node \<in> set (graph_nodes graph) \<and>
          0 \<le> score_get deg node 0 \<and> score_get deg node 0 \<le> 1 \<and>
          0 \<le> score_get bet node 0 \<and> score_get bet node 0 \<le> 1"
  proof (intro exI conjI)
    from h show "map_of (calculate_node_importance nx graph) node =
              Some (6 / 10 * score_get deg node 0 + 4 / 10 * score_get bet node 0)"
      by (simp add: m)
    from h show "0 \<le> 6 / 10 * score_get deg node 0 + 4 / 10 * score_get bet node 0" by simp
    from h show "6 / 10 * score_get deg node 0 + 4 / 10 * score_get bet node 0 \<le> 1"
      by linarith
  qed
qed

theorem importance_is_weighted_sum_witness:
  "calculate_node_importance degree_nx self_citation_graph =
     [(''paper_p1'', 9 / 5), (''author_a1'', 3 / 5)] \<and>
   map_of (calculate_node_importance degree_nx self_citation_graph) ''author_a1'' = Some (3 / 5) \<and>
   (\<exists>s. map_of (calculate_node_importance degree_nx self_citation_graph) ''author_a1'' = Some s \<and>
        0 \<le> s \<and> s \<le> 1)"
proof -
  note t = importance_is_weighted_sum [OF self_citation_library, of "''author_a1''"]
  have p: "''author_a1'' \<in> set (graph_nodes self_citation_graph) \<and>
      0 \<le> score_get [(''paper_p1'', 3), (''author_a1'', 1)] ''author_a1'' 0 \<and>
      score_get [(''paper_p1'', 3), (''author_a1'', 1)] ''author_a1'' 0 \<le> 1 \<and>
      0 \<le> score_get [(''paper_p1'', 0), (''author_a1'', 0)] ''author_a1'' 0 \<and>
      score_get [(''paper_p1'', 0), (''author_a1'', 0)] ''author_a1'' 0 \<le> 1"
    by (simp add: self_citation_graph_edges score_get_def)
  from t p have e: "\<exists>s. map_of (calculate_node_importance degree_nx self_citation_graph)
      ''author_a1'' = Some s \<and> 0 \<le> s \<and> s \<le> 1"
    by blast
  from t have "calculate_node_importance degree_nx self_citation_graph =
     [(''paper_p1'', 9 / 5), (''author_a1'', 3 / 5)]"
    by (simp add: self_citation_graph_edges score_get_def)
  moreover from t have
    "map_of (calculate_node_importance degree_nx self_citation_graph) ''author_a1'' = Some (3 / 5)"
    by (simp add: self_citation_graph_edges score_get_def)
  ultimately show ?thesis using e by blast
qed

text \<open>
  C5 as stated does not hold: the degree centrality of a node is not always at most 1. A
  paper that cites itself gets a citation edge from its node to itself; a self-loop counts twice
  in the degree, so with one author the paper has degree 3 among 2 nodes, degree centrality 3
  and importance 0.6 * 3 = 9/5.
\<close>

theorem self_citation_scores_above_one:
  "collect_graph_data (table_session [paper_citing_itself] storing_commit (Inr ()))
     None None None 10 = Inr (collect_from [paper_citing_itself] 10) \<and>
   map endpoints (snd (collect_from [paper_citing_itself] 10)) =
     [(''author_a1'', ''paper_p1'', AUTHORED_BY), (''paper_p1'', ''paper_p1'', CITES)] \<and>
   graph_nodes self_citation_graph = [''paper_p1'', ''author_a1''] \<and>
   nx_degree_centrality degree_nx self_citation_graph =
     Inr [(''paper_p1'', 3), (''author_a1'', 1)] \<and>
   map_of (calculate_node_importance degree_nx self_citation_graph) ''paper_p1'' = Some (9 / 5) \<and>
   \<not> (9 / 5 \<le> (1::real))"
  by (simp add: session_paper_citing_itself collect_paper_citing_itself endpoints_def
      citation_edge_def self_citation_graph_edges self_citation_library self_citation_importance)

end
